theory Spec2Isabelle
  imports Complex_Main "HOL-Library.Word"
begin

section \<open>Values (value.hpp)\<close>

text \<open>
  The C++ type \<^verbatim>\<open>double\<close> is modelled by \<open>real\<close>: every finite double is a real number, and
  comparison, negation, truncation and rounding to an integer are exact on doubles. Where
  IEEE arithmetic would round a sum, a product or a quotient the model keeps the exact
  result, and it has no infinities and no NaN: where \<^verbatim>\<open>std::pow\<close> or \<^verbatim>\<open>std::stod\<close> gives one
  of these, the model stops with \<open>NonFinite\<close>.
\<close>

datatype VarType = INTEGER | SINGLE | DOUBLE | STRING

text \<open>
  \<^verbatim>\<open>using Value = std::variant<int16_t, float, double, std::string>\<close>; one constructor for
  each alternative, in the order of the variant's indices 0 to 3.
\<close>

datatype Value = Int16 "16 word" | Float32 real | Float64 real | Str string


fun is_numeric :: "Value \<Rightarrow> bool" where
  "is_numeric (Str _) = False"
| "is_numeric _ = True"

fun is_string :: "Value \<Rightarrow> bool" where
  "is_string (Str _) = True"
| "is_string _ = False"

text \<open>\<^verbatim>\<open>to_number\<close>: a string gives 0.0 (``Type mismatch - should throw, but return 0 for now'').\<close>

fun to_number :: "Value \<Rightarrow> real" where
  "to_number (Int16 i) = real_of_int (sint i)"
| "to_number (Float32 f) = f"
| "to_number (Float64 d) = d"
| "to_number (Str _) = 0"

text \<open>\<^verbatim>\<open>std::rint\<close> in the default rounding mode: to the nearest integer, ties to even.\<close>

definition rint :: "real \<Rightarrow> int" where
  "rint x =
     (let f = \<lfloor>x\<rfloor>; r = x - real_of_int f
      in if r < 1 / 2 then f
         else if 1 / 2 < r then f + 1
         else if even f then f else f + 1)"

definition to_integer :: "Value \<Rightarrow> 16 word" where
  "to_integer v =
     (let d = to_number v
      in if 32767.5 \<le> d then 32767
         else if d \<le> - 32768.5 then - 32768
         else word_of_int (rint d))"

text \<open>
  \<^verbatim>\<open>static_cast<float>\<close> of a double: the nearest value with a 24-bit significand (ties to
  even), with the fixed quantum \<open>2 powr - 149\<close> below the smallest normal number. Overflow to
  infinity is outside the model.
\<close>

definition float_of_double :: "real \<Rightarrow> real" where
  "float_of_double x =
     (if x = 0 then 0
      else let e = max \<lfloor>log 2 \<bar>x\<bar>\<rfloor> (- 126);
               q = 2 powr real_of_int (e - 23)
           in real_of_int (rint (x / q)) * q)"

text \<open>\<^verbatim>\<open>coerce_to\<close>: no branch raises; a number coerced to \<open>STRING\<close> is the empty string.\<close>

fun coerce_to :: "Value \<Rightarrow> VarType \<Rightarrow> Value" where
  "coerce_to v INTEGER = Int16 (to_integer v)"
| "coerce_to v SINGLE = Float32 (float_of_double (to_number v))"
| "coerce_to v DOUBLE = Float64 (to_number v)"
| "coerce_to v STRING = (if is_string v then v else Str [])"

fun default_value :: "VarType \<Rightarrow> Value" where
  "default_value INTEGER = Int16 0"
| "default_value SINGLE = Float32 0"
| "default_value DOUBLE = Float64 0"
| "default_value STRING = Str []"

section \<open>Error codes (error.hpp)\<close>

definition NEXT_WITHOUT_FOR :: int where "NEXT_WITHOUT_FOR = 1"
definition RETURN_WITHOUT_GOSUB :: int where "RETURN_WITHOUT_GOSUB = 3"
definition OUT_OF_DATA :: int where "OUT_OF_DATA = 4"
definition UNDEFINED_LINE :: int where "UNDEFINED_LINE = 8"
definition DIVISION_BY_ZERO :: int where "DIVISION_BY_ZERO = 11"
definition TYPE_MISMATCH :: int where "TYPE_MISMATCH = 13"
definition STRING_TOO_LONG :: int where "STRING_TOO_LONG = 15"
definition RESUME_WITHOUT_ERROR :: int where "RESUME_WITHOUT_ERROR = 20"
definition FOR_WITHOUT_NEXT :: int where "FOR_WITHOUT_NEXT = 26"
definition INTERNAL_ERROR :: int where "INTERNAL_ERROR = 51"

section \<open>Program counter, loop records and stack entries (runtime.hpp)\<close>

datatype StopReason = RUNNING | END | STOP | BREAKPOINT | ERROR | INPUT | BREAK

record PC =
  line :: int
  stmt :: int
  reason :: StopReason


definition running_at :: "int \<Rightarrow> int \<Rightarrow> PC" where
  "running_at l s = \<lparr>line = l, stmt = s, reason = RUNNING\<rparr>"

definition halted :: "StopReason \<Rightarrow> PC" where
  "halted r = \<lparr>line = 0, stmt = 0, reason = r\<rparr>"

record ForLoopState =
  resume_pc :: PC
  end_value :: real
  step_value :: real

datatype StackEntryType = GOSUB | WHILE

record StackEntry =
  type :: StackEntryType
  return_pc :: PC
  loop_pc :: PC

section \<open>Tokens and syntax trees (tokens.hpp, ast.hpp)\<close>

text \<open>
  The token types the expression grammar looks at are constructors of their own. The 55
  built-in function tokens (\<^verbatim>\<open>ABS\<close> ... \<^verbatim>\<open>ERROR_FUNC\<close>) are \<open>BUILTIN\<close> with the
  enumerator's name, and the remaining keyword and delimiter tokens are \<open>KEYWORD\<close> with
  theirs. A token is its type and its normalised text; line and column, which only go into
  diagnostics, are left out of tokens and syntax nodes.
\<close>

datatype TokenType =
    NUMBER | STRING_TOKEN | IDENTIFIER
  | PLUS | MINUS | MULTIPLY | DIVIDE | POWER | BACKSLASH | MOD
  | EQUAL | NOT_EQUAL | LESS_THAN | GREATER_THAN | LESS_EQUAL | GREATER_EQUAL
  | NOT | AND | OR | XOR | EQV | IMP
  | ERR | ERL | FN
  | LPAREN | RPAREN | COMMA | AMPERSAND | COLON | NEWLINE | END_OF_FILE
  | BUILTIN string | KEYWORD string

type_synonym Token = "TokenType \<times> string"

datatype Expr =
    NumberExpr real
  | StringExpr string
  | VariableExpr string VarType
  | BinaryExpr TokenType Expr Expr
  | UnaryExpr TokenType Expr
  | FunctionCallExpr string "Expr list"
  | ArrayAccessExpr string "Expr list" VarType

datatype ResumeType = RESUME_NEXT | RESUME_LINE | RESUME_IMPLICIT

text \<open>
  The statement kinds that the functions below inspect. \<open>OtherStmt\<close> stands for each of the
  remaining kinds of the \<^verbatim>\<open>Stmt\<close> variant; a variable node is its name and its type.
\<close>

datatype Stmt =
    LetStmt string VarType Expr
  | ForStmt string VarType Expr Expr "Expr option"
  | NextStmt "string list"
  | WhileStmt Expr
  | WendStmt
  | GosubStmt int
  | ReturnStmt "int option"
  | DataStmt "Value list"
  | ReadStmt "(string \<times> VarType) list"
  | RestoreStmt "int option"
  | DefFnStmt string "string list" Expr
  | ClearStmt
  | ResumeStmt ResumeType "int option"
  | OtherStmt

record Line =
  line_number :: int
  line_statements :: "Stmt list"
  source_text :: string

record Program =
  lines :: "Line list"
  program_def_type_map :: "char \<rightharpoonup> VarType"

section \<open>Hash containers\<close>

text \<open>
  A \<^verbatim>\<open>std::unordered_map\<close> that the code iterates over (\<^verbatim>\<open>begin()\<close>, range-\<^verbatim>\<open>for\<close>) is
  the list of its entries in iteration order, with distinct keys. Assigning to a key that
  is present replaces its value in place and \<^verbatim>\<open>erase\<close> keeps the order of the other
  entries, as the language guarantees. Where a new key lands is decided by the hash function
  and the bucket count, which the language leaves to the implementation: the operations
  that insert take that position as the parameter \<open>slot\<close> (the new key and the keys
  present, in order, to an index). The containers that are only searched by key are maps.
\<close>

type_synonym ('k, 'v) unordered_map = "('k \<times> 'v) list"

type_synonym 'k slot = "'k \<Rightarrow> 'k list \<Rightarrow> nat"

definition um_find :: "'k \<Rightarrow> ('k, 'v) unordered_map \<Rightarrow> 'v option" where
  "um_find k m = map_of m k"

definition um_assign :: "'k slot \<Rightarrow> 'k \<Rightarrow> 'v \<Rightarrow> ('k, 'v) unordered_map \<Rightarrow> ('k, 'v) unordered_map" where
  "um_assign slot k v m =
     (if k \<in> set (map fst m) then map (\<lambda>(k', v'). if k' = k then (k', v) else (k', v')) m
      else let n = min (slot k (map fst m)) (length m) in take n m @ (k, v) # drop n m)"

definition um_erase :: "'k \<Rightarrow> ('k, 'v) unordered_map \<Rightarrow> ('k, 'v) unordered_map" where
  "um_erase k m = filter (\<lambda>(k', v'). k' \<noteq> k) m"

section \<open>StatementTable (runtime.cpp)\<close>

record StatementTable =
  table :: "int \<times> int \<rightharpoonup> Stmt"
  line_first_stmt :: "int \<rightharpoonup> int"
  line_numbers :: "int list"
  line_text :: "int \<rightharpoonup> string"

definition empty_table :: StatementTable where
  "empty_table = \<lparr>table = Map.empty, line_first_stmt = Map.empty, line_numbers = [],
     line_text = Map.empty\<rparr>"

fun add_statements :: "int \<Rightarrow> nat \<Rightarrow> Stmt list \<Rightarrow> (int \<times> int \<rightharpoonup> Stmt) \<Rightarrow> (int \<times> int \<rightharpoonup> Stmt)" where
  "add_statements lno i [] t = t"
| "add_statements lno i (s # ss) t = add_statements lno (Suc i) ss (t((lno, int i) \<mapsto> s))"

definition build_line :: "StatementTable \<Rightarrow> Line \<Rightarrow> StatementTable" where
  "build_line st l =
     st\<lparr>line_numbers := line_numbers st @ [line_number l],
        line_first_stmt := (line_first_stmt st)(line_number l \<mapsto> 0),
        line_text := (line_text st)(line_number l \<mapsto> source_text l),
        table := add_statements (line_number l) 0 (line_statements l) (table st)\<rparr>"

definition build :: "Program \<Rightarrow> StatementTable" where
  "build program =
     (let st = foldl build_line empty_table (lines program)
      in st\<lparr>line_numbers := sort (line_numbers st)\<rparr>)"

definition get :: "StatementTable \<Rightarrow> PC \<Rightarrow> Stmt option" where
  "get st p = table st (line p, stmt p)"

definition first :: "StatementTable \<Rightarrow> PC" where
  "first st = (case line_numbers st of [] \<Rightarrow> halted END | l # _ \<Rightarrow> running_at l 0)"

text \<open>\<^verbatim>\<open>std::upper_bound\<close> on the sorted line numbers: the first one greater than the line.\<close>

definition "next" :: "StatementTable \<Rightarrow> PC \<Rightarrow> PC" where
  "next st current =
     (if table st (line current, stmt current + 1) \<noteq> None
      then running_at (line current) (stmt current + 1)
      else case List.find (\<lambda>l. line current < l) (line_numbers st) of
             None \<Rightarrow> halted END
           | Some l \<Rightarrow> running_at l 0)"

definition find_line :: "StatementTable \<Rightarrow> int \<Rightarrow> PC" where
  "find_line st line_num =
     (case line_first_stmt st line_num of
        None \<Rightarrow> halted ERROR
      | Some s \<Rightarrow> running_at line_num s)"

definition valid :: "StatementTable \<Rightarrow> PC \<Rightarrow> bool" where
  "valid st p = (table st (line p, stmt p) \<noteq> None)"

section \<open>Runtime (runtime.hpp, runtime.cpp)\<close>

record ArrayData =
  dimensions :: "int list"
  data :: "Value list"
  array_type :: VarType

record FieldBuffer =
  buffer :: "char list"
  field_vars :: "string \<rightharpoonup> int \<times> int"
  current_record :: int

text \<open>
  The private members \<^verbatim>\<open>variables_\<close> and \<^verbatim>\<open>arrays_\<close> are the fields \<open>variables\<close> and
  \<open>arrays\<close>. A file stream is its open flag, a registered user function its parameters and
  body, and a breakpoint the line and statement index that \<^verbatim>\<open>PC::operator<\<close> compares.
\<close>

record Runtime =
  pc :: PC
  next_pc :: "PC option"
  statements :: StatementTable
  exec_stack :: "StackEntry list"
  for_states :: "(string, ForLoopState) unordered_map"
  data_values :: "Value list"
  data_ptr :: nat
  data_line_map :: "(int, nat) unordered_map"
  user_functions :: "string \<rightharpoonup> string list \<times> Expr"
  files :: "int \<rightharpoonup> bool"
  field_buffers :: "int \<rightharpoonup> FieldBuffer"
  error_handler_line :: "int option"
  error_handler_is_gosub :: bool
  last_error_code :: int
  last_error_line :: int
  error_pc :: "PC option"
  array_base :: int
  trace_on :: bool
  rnd_last :: real
  breakpoints :: "(int \<times> int) set"
  break_requested :: bool
  direct_mode :: bool
  def_type_map :: "char \<rightharpoonup> VarType"
  common_vars :: "string list"
  variables :: "string \<rightharpoonup> Value"
  arrays :: "string \<rightharpoonup> ArrayData"

text \<open>\<^verbatim>\<open>std::isalpha\<close> and \<^verbatim>\<open>std::tolower\<close> in the C locale.\<close>

definition isalpha :: "char \<Rightarrow> bool" where
  "isalpha c = (let n = (of_char c :: nat) in (65 \<le> n \<and> n \<le> 90) \<or> (97 \<le> n \<and> n \<le> 122))"

definition tolower :: "char \<Rightarrow> char" where
  "tolower c = (let n = (of_char c :: nat) in if 65 \<le> n \<and> n \<le> 90 then char_of (n + 32) else c)"

text \<open>The constructor \<^verbatim>\<open>Runtime::Runtime()\<close> and the default member initialisers.\<close>

definition Runtime_init :: Runtime where
  "Runtime_init =
     \<lparr>pc = \<lparr>line = 0, stmt = 0, reason = RUNNING\<rparr>, next_pc = None, statements = empty_table,
      exec_stack = [], for_states = [], data_values = [], data_ptr = 0, data_line_map = [],
      user_functions = Map.empty, files = Map.empty, field_buffers = Map.empty,
      error_handler_line = None, error_handler_is_gosub = False, last_error_code = 0,
      last_error_line = 0, error_pc = None, array_base = 0, trace_on = False,
      rnd_last = 1 / 2, breakpoints = {}, break_requested = False, direct_mode = False,
      def_type_map = (\<lambda>c. if 97 \<le> (of_char c :: nat) \<and> (of_char c :: nat) \<le> 122 then Some SINGLE else None),
      common_vars = [],
      variables = [''err%'' \<mapsto> Int16 0, ''erl%'' \<mapsto> Int16 0],
      arrays = Map.empty\<rparr>"

definition resolve_type :: "Runtime \<Rightarrow> string \<Rightarrow> VarType" where
  "resolve_type rt name =
     (if name \<noteq> [] \<and> last name = CHR ''%'' then INTEGER
      else if name \<noteq> [] \<and> last name = CHR ''!'' then SINGLE
      else if name \<noteq> [] \<and> last name = CHR ''#'' then DOUBLE
      else if name \<noteq> [] \<and> last name = CHR ''$'' then STRING
      else if name \<noteq> [] \<and> isalpha (hd name)
        then (case def_type_map rt (tolower (hd name)) of Some t \<Rightarrow> t | None \<Rightarrow> SINGLE)
      else SINGLE)"

fun default_for_type :: "VarType \<Rightarrow> Value" where
  "default_for_type INTEGER = Int16 0"
| "default_for_type SINGLE = Float32 0"
| "default_for_type DOUBLE = Float64 0"
| "default_for_type STRING = Str []"

definition get_variable :: "Runtime \<Rightarrow> string \<Rightarrow> Value" where
  "get_variable rt name =
     (case variables rt name of
        Some v \<Rightarrow> v
      | None \<Rightarrow> default_for_type (resolve_type rt name))"

definition set_variable :: "Runtime \<Rightarrow> string \<Rightarrow> Value \<Rightarrow> Runtime" where
  "set_variable rt name val =
     (let target_type = resolve_type rt name
      in rt\<lparr>variables := (variables rt)(name \<mapsto> coerce_to val target_type)\<rparr>)"

definition has_variable :: "Runtime \<Rightarrow> string \<Rightarrow> bool" where
  "has_variable rt name = (variables rt name \<noteq> None)"


subsection \<open>DATA, READ and RESTORE\<close>

fun collect_stmt :: "int slot \<Rightarrow> int \<Rightarrow> Value list \<times> (int, nat) unordered_map \<Rightarrow> Stmt
    \<Rightarrow> Value list \<times> (int, nat) unordered_map" where
  "collect_stmt slot lno (dv, dm) (DataStmt vals) =
     (let start_idx = length dv in (dv @ vals, um_assign slot lno start_idx dm))"
| "collect_stmt slot lno acc _ = acc"

definition collect_line :: "int slot \<Rightarrow> Value list \<times> (int, nat) unordered_map \<Rightarrow> Line
    \<Rightarrow> Value list \<times> (int, nat) unordered_map" where
  "collect_line slot acc l = foldl (collect_stmt slot (line_number l)) acc (line_statements l)"

definition collect_data :: "int slot \<Rightarrow> Runtime \<Rightarrow> Program \<Rightarrow> Runtime" where
  "collect_data slot rt program =
     (case foldl (collect_line slot) ([], []) (lines program) of
        (dv, dm) \<Rightarrow> rt\<lparr>data_values := dv, data_line_map := dm, data_ptr := 0\<rparr>)"

text \<open>
  What leaves a function through \<^verbatim>\<open>throw\<close>, or stops it, is the left summand of its result:
  a \<^verbatim>\<open>RuntimeError\<close> with its code, the \<^verbatim>\<open>std::bad_variant_access\<close> of a failed
  \<^verbatim>\<open>std::get\<close>, an operation whose behaviour C++ leaves undefined, a value that is an
  infinity or a NaN (the code goes on with it; the model, which has no such value, stops
  there), or a construct that this development does not model. The runtime travels with it,
  since \<^verbatim>\<open>raise_error\<close> and the statements before a \<^verbatim>\<open>throw\<close> change it.
\<close>

datatype UB = IntDivByZero | IntDivOverflow | FloatToIntOverflow

datatype Exception =
  RuntimeError int | BadVariantAccess | UndefinedBehaviour UB | NonFinite | NotModelled

type_synonym 'a result = "Exception \<times> Runtime + 'a"

definition read_data :: "Runtime \<Rightarrow> (Value \<times> Runtime) result" where
  "read_data rt =
     (if length (data_values rt) \<le> data_ptr rt then Inl (RuntimeError OUT_OF_DATA, rt)
      else Inr (data_values rt ! data_ptr rt, rt\<lparr>data_ptr := data_ptr rt + 1\<rparr>))"

definition restore_data :: "Runtime \<Rightarrow> int option \<Rightarrow> Runtime" where
  "restore_data rt line_opt =
     (case line_opt of
        None \<Rightarrow> rt\<lparr>data_ptr := 0\<rparr>
      | Some l \<Rightarrow>
          (case um_find l (data_line_map rt) of
             Some idx \<Rightarrow> rt\<lparr>data_ptr := idx\<rparr>
           | None \<Rightarrow>
               (case List.find (\<lambda>(lno, idx). l \<le> lno) (data_line_map rt) of
                  Some (lno, idx) \<Rightarrow> rt\<lparr>data_ptr := idx\<rparr>
                | None \<Rightarrow> rt\<lparr>data_ptr := length (data_values rt)\<rparr>)))"

text \<open>\<^verbatim>\<open>Runtime::load\<close>: the type map, the statement table, the data pool, the user functions.\<close>

fun register_fn :: "(string \<rightharpoonup> string list \<times> Expr) \<Rightarrow> Stmt \<Rightarrow> (string \<rightharpoonup> string list \<times> Expr)" where
  "register_fn uf (DefFnStmt name params body) = uf(name \<mapsto> (params, body))"
| "register_fn uf _ = uf"

definition load :: "int slot \<Rightarrow> Runtime \<Rightarrow> Program \<Rightarrow> Runtime" where
  "load slot rt program =
     (let rt1 = rt\<lparr>def_type_map := program_def_type_map program\<rparr>;
          rt2 = rt1\<lparr>statements := build program\<rparr>;
          rt3 = collect_data slot rt2 program;
          rt4 = rt3\<lparr>user_functions :=
                  foldl (\<lambda>uf l. foldl register_fn uf (line_statements l)) Map.empty (lines program)\<rparr>
      in rt4\<lparr>pc := first (statements rt4)\<rparr>)"

section \<open>Interpreter (interpreter.cpp)\<close>

subsection \<open>Numeric helpers\<close>

definition float_equal :: "real \<Rightarrow> real \<Rightarrow> bool" where
  "float_equal a b =
     (if a = b then True
      else let diff = \<bar>a - b\<bar>; larger = max \<bar>a\<bar> \<bar>b\<bar>;
               rel_epsilon = 1 / 10 ^ 6; abs_epsilon = 1 / 10 ^ 9
           in diff \<le> max abs_epsilon (larger * rel_epsilon))"

text \<open>
  A \<^verbatim>\<open>static_cast\<close> from \<^verbatim>\<open>double\<close> to an integer type truncates toward zero; its behaviour
  is undefined when the truncated value does not fit the type.
\<close>

definition trunc :: "real \<Rightarrow> int" where
  "trunc x = (if 0 \<le> x then \<lfloor>x\<rfloor> else \<lceil>x\<rceil>)"

definition static_cast_int :: "real \<Rightarrow> int option" where
  "static_cast_int x =
     (let t = trunc x in if - 2147483648 \<le> t \<and> t \<le> 2147483647 then Some t else None)"

definition static_cast_int16 :: "real \<Rightarrow> 16 word option" where
  "static_cast_int16 x =
     (let t = trunc x in if - 32768 \<le> t \<and> t \<le> 32767 then Some (word_of_int t) else None)"

text \<open>
  The operators \<^verbatim>\<open>/\<close> and \<^verbatim>\<open>%\<close> on \<^verbatim>\<open>int\<close>: the quotient truncates toward zero; a zero
  divisor, and \<^verbatim>\<open>INT_MIN\<close> divided by \<open>-1\<close>, are undefined behaviour (a trap on x86).
\<close>

definition int_quot :: "int \<Rightarrow> int \<Rightarrow> int" where
  "int_quot a b = sgn a * sgn b * (\<bar>a\<bar> div \<bar>b\<bar>)"

definition int_divide :: "int \<Rightarrow> int \<Rightarrow> UB + int" where
  "int_divide a b =
     (if b = 0 then Inl IntDivByZero
      else if a = - 2147483648 \<and> b = - 1 then Inl IntDivOverflow
      else Inr (int_quot a b))"

definition int_modulo :: "int \<Rightarrow> int \<Rightarrow> UB + int" where
  "int_modulo a b =
     (if b = 0 then Inl IntDivByZero
      else if a = - 2147483648 \<and> b = - 1 then Inl IntDivOverflow
      else Inr (a - b * int_quot a b))"

text \<open>
  The least magnitude that rounds to an infinity: halfway from the largest \<^verbatim>\<open>double\<close>,
  \<open>2 ^ 1024 - 2 ^ 971\<close>, to \<open>2 ^ 1024\<close>.
\<close>

definition overflow_threshold :: real where
  "overflow_threshold = 2 ^ 1024 - 2 ^ 970"

text \<open>
  \<^verbatim>\<open>std::pow\<close> on finite arguments. \<open>None\<close> is a result that is no finite number: the
  infinity of zero to a negative power, the NaN of a negative base with an exponent that is
  no integer, and the infinity of a power too large for a \<^verbatim>\<open>double\<close>.
\<close>

definition pow :: "real \<Rightarrow> real \<Rightarrow> real option" where
  "pow x y =
     (let r = (if x = 0 then (if y = 0 then Some 1 else if 0 < y then Some 0 else None)
               else if y = real_of_int \<lfloor>y\<rfloor> then Some (power_int x \<lfloor>y\<rfloor>)
               else if 0 < x then Some (x powr y)
               else None)
      in case r of
           None \<Rightarrow> None
         | Some v \<Rightarrow> if overflow_threshold \<le> \<bar>v\<bar> then None else Some v)"


fun string_of :: "Value \<Rightarrow> string" where
  "string_of (Str s) = s"
| "string_of _ = []"

subsection \<open>Errors and jumps\<close>

definition raise_error :: "Runtime \<Rightarrow> int \<Rightarrow> 'a result" where
  "raise_error rt code =
     Inl (RuntimeError code, rt\<lparr>last_error_code := code, last_error_line := line (pc rt)\<rparr>)"

definition jump_to :: "Runtime \<Rightarrow> int \<Rightarrow> Runtime result" where
  "jump_to rt line_num =
     (let target = find_line (statements rt) line_num
      in if \<not> valid (statements rt) target then raise_error rt UNDEFINED_LINE
         else Inr (rt\<lparr>next_pc := Some target\<rparr>))"


subsection \<open>Expression evaluation\<close>

text \<open>
  \<^verbatim>\<open>eval\<close> on the literal, variable, binary and unary nodes. Function calls and array
  accesses (\<^verbatim>\<open>eval_function\<close>, \<^verbatim>\<open>Runtime::get_array\<close>) are not modelled. On the modelled
  nodes \<^verbatim>\<open>eval\<close> changes nothing, so \<^verbatim>\<open>eval_binary\<close>, which evaluates an operand up to
  three times, gets the same value each time, and the model evaluates it once.
\<close>

function (sequential) eval :: "Runtime \<Rightarrow> Expr \<Rightarrow> Value result"
  and eval_binary :: "Runtime \<Rightarrow> TokenType \<Rightarrow> Expr \<Rightarrow> Expr \<Rightarrow> Value result"
  and eval_unary :: "Runtime \<Rightarrow> TokenType \<Rightarrow> Expr \<Rightarrow> Value result" where
  "eval rt (NumberExpr v) = Inr (Float64 v)"
| "eval rt (StringExpr s) = Inr (Str s)"
| "eval rt (VariableExpr name t) = Inr (get_variable rt name)"
| "eval rt (BinaryExpr op l r) = eval_binary rt op l r"
| "eval rt (UnaryExpr op e) = eval_unary rt op e"
| "eval rt (FunctionCallExpr name args) = Inl (NotModelled, rt)"
| "eval rt (ArrayAccessExpr name indices t) = Inl (NotModelled, rt)"
| "eval_binary rt op l r =
     (case eval rt l of
        Inl x \<Rightarrow> Inl x
      | Inr lv \<Rightarrow>
     (case eval rt r of
        Inl x \<Rightarrow> Inl x
      | Inr rv \<Rightarrow>
          if (op = PLUS \<or> op = AMPERSAND) \<and> (is_string lv \<or> is_string rv) then
            (let result = string_of lv @ string_of rv
             in if 255 < length result then raise_error rt STRING_TOO_LONG
                else Inr (Str result))
          else
            (let left = to_number lv; right = to_number rv
             in if op = PLUS then Inr (Float64 (left + right))
                else if op = MINUS then Inr (Float64 (left - right))
                else if op = MULTIPLY then Inr (Float64 (left * right))
                else if op = DIVIDE then
                  (if right = 0 then raise_error rt DIVISION_BY_ZERO
                   else Inr (Float64 (left / right)))
                else if op = BACKSLASH then
                  (if right = 0 then raise_error rt DIVISION_BY_ZERO
                   else case (static_cast_int left, static_cast_int right) of
                          (Some a, Some b) \<Rightarrow>
                            (case int_divide a b of
                               Inl u \<Rightarrow> Inl (UndefinedBehaviour u, rt)
                             | Inr q \<Rightarrow> Inr (Float64 (real_of_int q)))
                        | _ \<Rightarrow> Inl (UndefinedBehaviour FloatToIntOverflow, rt))
                else if op = MOD then
                  (if right = 0 then raise_error rt DIVISION_BY_ZERO
                   else case (static_cast_int left, static_cast_int right) of
                          (Some a, Some b) \<Rightarrow>
                            (case int_modulo a b of
                               Inl u \<Rightarrow> Inl (UndefinedBehaviour u, rt)
                             | Inr q \<Rightarrow> Inr (Float64 (real_of_int q)))
                        | _ \<Rightarrow> Inl (UndefinedBehaviour FloatToIntOverflow, rt))
                else if op = POWER then
                  (case pow left right of
                     Some v \<Rightarrow> Inr (Float64 v)
                   | None \<Rightarrow> Inl (NonFinite, rt))
                else if op = EQUAL then
                  (if is_string lv then
                     (if is_string rv
                      then Inr (Float64 (if string_of lv = string_of rv then - 1 else 0))
                      else Inl (BadVariantAccess, rt))
                   else Inr (Float64 (if float_equal left right then - 1 else 0)))
                else if op = NOT_EQUAL then
                  Inr (Float64 (if \<not> float_equal left right then - 1 else 0))
                else if op = LESS_THAN then
                  Inr (Float64 (if left < right \<and> \<not> float_equal left right then - 1 else 0))
                else if op = GREATER_THAN then
                  Inr (Float64 (if right < left \<and> \<not> float_equal left right then - 1 else 0))
                else if op = LESS_EQUAL then
                  Inr (Float64 (if left < right \<or> float_equal left right then - 1 else 0))
                else if op = GREATER_EQUAL then
                  Inr (Float64 (if right < left \<or> float_equal left right then - 1 else 0))
                else if op = AND \<or> op = OR \<or> op = XOR \<or> op = EQV \<or> op = IMP then
                  (case (static_cast_int16 left, static_cast_int16 right) of
                     (Some a, Some b) \<Rightarrow>
                       Inr (Float64 (real_of_int (sint
                         (if op = AND then and a b
                          else if op = OR then or a b
                          else if op = XOR then xor a b
                          else if op = EQV then not (xor a b)
                          else or (not a) b))))
                   | _ \<Rightarrow> Inl (UndefinedBehaviour FloatToIntOverflow, rt))
                else raise_error rt INTERNAL_ERROR)))"
| "eval_unary rt op e =
     (case eval rt e of
        Inl x \<Rightarrow> Inl x
      | Inr operand \<Rightarrow>
          if op = MINUS then Inr (Float64 (- to_number operand))
          else if op = NOT then
            (case static_cast_int16 (to_number operand) of
               Some a \<Rightarrow> Inr (Float64 (real_of_int (sint (not a))))
             | None \<Rightarrow> Inl (UndefinedBehaviour FloatToIntOverflow, rt))
          else if op = PLUS then Inr (Float64 (to_number operand))
          else raise_error rt INTERNAL_ERROR)"
  by pat_completeness auto
termination
  by (relation "measure (\<lambda>x. case x of
        Inl (rt, e) \<Rightarrow> 2 * size e
      | Inr (Inl (rt, op, l, r)) \<Rightarrow> 2 * (size l + size r) + 1
      | Inr (Inr (rt, op, e)) \<Rightarrow> 2 * size e + 1)") auto

subsection \<open>Assignment\<close>

text \<open>\<^verbatim>\<open>set_lvalue\<close> for a scalar target; array elements (\<^verbatim>\<open>Runtime::set_array\<close>) are not modelled.\<close>

definition set_lvalue :: "Runtime \<Rightarrow> string \<Rightarrow> VarType \<Rightarrow> Value \<Rightarrow> Runtime" where
  "set_lvalue rt name t val = set_variable rt name (coerce_to val t)"

definition exec_let :: "Runtime \<Rightarrow> string \<Rightarrow> VarType \<Rightarrow> Expr \<Rightarrow> Runtime result" where
  "exec_let rt name t expression =
     (case eval rt expression of
        Inl x \<Rightarrow> Inl x
      | Inr val \<Rightarrow> Inr (set_lvalue rt name t val))"


subsection \<open>FOR and NEXT\<close>

text \<open>
  The forward scan of \<^verbatim>\<open>exec_for\<close> for the matching \<^verbatim>\<open>NEXT\<close>. The outer \<open>option\<close> is
  \<open>None\<close> when the loop does not return; inside, \<open>None\<close> is the scan running off the
  program (\<^verbatim>\<open>FOR without NEXT\<close>) and \<open>Some scan\<close> the statement that closes the loop.
\<close>

partial_function (option) scan_next :: "StatementTable \<Rightarrow> string \<Rightarrow> PC \<Rightarrow> int \<Rightarrow> PC option option" where
  "scan_next st for_var_name scan depth =
     (let scan' = next st scan
      in if \<not> valid st scan' then Some None
         else let depth' =
                   (case get st scan' of
                      Some (ForStmt v t a b c) \<Rightarrow> depth + 1
                    | Some (NextStmt vars) \<Rightarrow>
                        if vars = [] then depth - 1
                        else if for_var_name \<in> set vars then depth - 1
                        else depth
                    | _ \<Rightarrow> depth)
              in if 0 < depth' then scan_next st for_var_name scan' depth'
                 else Some (Some scan'))"

definition exec_for :: "string slot \<Rightarrow> Runtime \<Rightarrow> string \<Rightarrow> Expr \<Rightarrow> Expr \<Rightarrow> Expr option
    \<Rightarrow> Runtime result option" where
  "exec_for slot rt name start_expr end_expr step_expr =
     (case eval rt start_expr of
        Inl x \<Rightarrow> Some (Inl x)
      | Inr sv \<Rightarrow>
     (case eval rt end_expr of
        Inl x \<Rightarrow> Some (Inl x)
      | Inr ev \<Rightarrow>
     (case (case step_expr of None \<Rightarrow> Inr (Float64 1) | Some e \<Rightarrow> eval rt e) of
        Inl x \<Rightarrow> Some (Inl x)
      | Inr stv \<Rightarrow>
          (let start_val = to_number sv; end_val = to_number ev; step_val = to_number stv;
               rt1 = set_variable rt name (Float64 start_val);
               state = \<lparr>resume_pc = pc rt1, end_value = end_val, step_value = step_val\<rparr>;
               rt2 = rt1\<lparr>for_states := um_assign slot name state (for_states rt1)\<rparr>
           in if (0 < step_val \<and> end_val < start_val) \<or> (step_val < 0 \<and> start_val < end_val)
              then (case scan_next (statements rt2) name (pc rt2) 1 of
                      None \<Rightarrow> None
                    | Some None \<Rightarrow> Some (raise_error rt2 FOR_WITHOUT_NEXT)
                    | Some (Some scan) \<Rightarrow>
                        Some (Inr (rt2\<lparr>next_pc := Some (next (statements rt2) scan),
                                       for_states := um_erase name (for_states rt2)\<rparr>)))
              else Some (Inr rt2)))))"

fun next_loop :: "Runtime \<Rightarrow> string list \<Rightarrow> Runtime result" where
  "next_loop rt [] = Inr rt"
| "next_loop rt (var_name # rest) =
     (case um_find var_name (for_states rt) of
        None \<Rightarrow> raise_error rt NEXT_WITHOUT_FOR
      | Some state \<Rightarrow>
          (let current = to_number (get_variable rt var_name) + step_value state;
               rt1 = set_variable rt var_name (Float64 current);
               is_done = (if 0 < step_value state then end_value state < current
                          else current < end_value state)
           in if is_done
              then next_loop (rt1\<lparr>for_states := um_erase var_name (for_states rt1)\<rparr>) rest
              else next_loop
                     (rt1\<lparr>next_pc := Some (next (statements rt1) (resume_pc state))\<rparr>) rest))"

text \<open>
  \<^verbatim>\<open>exec_next\<close>. With no variable it takes \<^verbatim>\<open>for_states.begin()->first\<close>, the first key in
  the container's iteration order (``we don't track order, so just pick one'').
\<close>

definition exec_next :: "Runtime \<Rightarrow> string list \<Rightarrow> Runtime result" where
  "exec_next rt vars =
     (if vars = [] then
        (case for_states rt of
           [] \<Rightarrow> raise_error rt NEXT_WITHOUT_FOR
         | entry # _ \<Rightarrow> next_loop rt [fst entry])
      else next_loop rt vars)"

subsection \<open>WHILE, WEND, GOSUB and RETURN\<close>


text \<open>A \<^verbatim>\<open>StackEntry\<close> as declared: both program counters start as the default \<^verbatim>\<open>PC\<close>.\<close>

definition new_entry :: "StackEntryType \<Rightarrow> StackEntry" where
  "new_entry k = \<lparr>type = k, return_pc = \<lparr>line = 0, stmt = 0, reason = RUNNING\<rparr>,
     loop_pc = \<lparr>line = 0, stmt = 0, reason = RUNNING\<rparr>\<rparr>"


text \<open>
  The loop of \<^verbatim>\<open>exec_wend\<close> and \<^verbatim>\<open>exec_return\<close>, on the stack from its top
  (\<^verbatim>\<open>rbegin()\<close>): the first entry of the wanted kind, and the stack with that one entry
  erased (\<^verbatim>\<open>exec_stack.erase(std::next(it).base())\<close>).
\<close>

fun erase_first :: "('a \<Rightarrow> bool) \<Rightarrow> 'a list \<Rightarrow> ('a \<times> 'a list) option" where
  "erase_first P [] = None"
| "erase_first P (x # xs) =
     (if P x then Some (x, xs)
      else case erase_first P xs of
             None \<Rightarrow> None
           | Some (y, ys) \<Rightarrow> Some (y, x # ys))"



definition exec_return :: "Runtime \<Rightarrow> int option \<Rightarrow> Runtime result" where
  "exec_return rt target_line =
     (case erase_first (\<lambda>e. type e = GOSUB) (rev (exec_stack rt)) of
        Some (e, rest) \<Rightarrow>
          Inr (rt\<lparr>next_pc := Some (case target_line of
                                      Some n \<Rightarrow> find_line (statements rt) n
                                    | None \<Rightarrow> return_pc e),
                  exec_stack := rev rest\<rparr>)
      | None \<Rightarrow> raise_error rt RETURN_WITHOUT_GOSUB)"

subsection \<open>READ, RESTORE, CLEAR and RESUME\<close>






definition exec_resume :: "Runtime \<Rightarrow> ResumeType \<Rightarrow> int option \<Rightarrow> Runtime result" where
  "exec_resume rt resume_type target_line =
     (let rt1 = set_variable rt ''err%'' (Int16 0)
      in case error_pc rt1 of
           None \<Rightarrow> raise_error rt1 RESUME_WITHOUT_ERROR
         | Some epc \<Rightarrow>
             (case (if resume_type = RESUME_NEXT
                    then Inr (rt1\<lparr>next_pc := Some (next (statements rt1) epc)\<rparr>)
                    else case target_line of
                           Some n \<Rightarrow> jump_to rt1 n
                         | None \<Rightarrow> Inr (rt1\<lparr>next_pc := Some epc\<rparr>)) of
                Inl x \<Rightarrow> Inl x
              | Inr rt2 \<Rightarrow> Inr (rt2\<lparr>error_pc := None\<rparr>)))"

subsection \<open>The tick\<close>






section \<open>Numbers as text\<close>

subsection \<open>Characters and digits\<close>

definition isdigit :: "char \<Rightarrow> bool" where
  "isdigit c = (48 \<le> (of_char c :: nat) \<and> (of_char c :: nat) \<le> 57)"

definition isspace :: "char \<Rightarrow> bool" where
  "isspace c = ((of_char c :: nat) = 32 \<or> (9 \<le> (of_char c :: nat) \<and> (of_char c :: nat) \<le> 13))"

definition digit_char :: "nat \<Rightarrow> char" where
  "digit_char d = char_of (48 + d)"

definition digit_value :: "char \<Rightarrow> nat" where
  "digit_value c = of_char c - 48"

text \<open>The decimal digits of a natural number, most significant first.\<close>

fun digits_of :: "nat \<Rightarrow> string" where
  "digits_of n = (if n < 10 then [digit_char n] else digits_of (n div 10) @ [digit_char (n mod 10)])"

declare digits_of.simps [simp del]

definition digits_value :: "string \<Rightarrow> nat" where
  "digits_value ds = foldl (\<lambda>acc c. 10 * acc + digit_value c) 0 ds"

subsection \<open>\<^verbatim>\<open>std::to_string\<close> and \<^verbatim>\<open>to_string\<close> (value.hpp)\<close>

text \<open>\<^verbatim>\<open>std::to_string\<close> of an integer: its decimal digits, after a minus sign if negative.\<close>

definition std_to_string_int :: "int \<Rightarrow> string" where
  "std_to_string_int i = (if i < 0 then CHR ''-'' # digits_of (nat (- i)) else digits_of (nat i))"

text \<open>
  \<^verbatim>\<open>std::to_string\<close> of a \<^verbatim>\<open>double\<close> is \<^verbatim>\<open>printf\<close>'s \<^verbatim>\<open>%f\<close>: the magnitude rounded to six
  decimals (ties to even), written as an integer part, a point and six digits, after a
  minus sign if the number is negative.
\<close>

definition pad6 :: "string \<Rightarrow> string" where
  "pad6 ds = replicate (6 - length ds) CHR ''0'' @ ds"

definition std_to_string_double :: "real \<Rightarrow> string" where
  "std_to_string_double d =
     (let n = nat (rint (\<bar>d\<bar> * 10 ^ 6))
      in (if d < 0 then ''-'' else []) @ digits_of (n div 10 ^ 6) @ ''.'' @ pad6 (digits_of (n mod 10 ^ 6)))"

text \<open>
  The trimming of the \<^verbatim>\<open>%f\<close> text, done when it has a point: trailing zeros go, then a
  trailing point. With a point in the text the first loop stops there at the latest.
\<close>

definition trim_zeros :: "string \<Rightarrow> string" where
  "trim_zeros s =
     (if CHR ''.'' \<in> set s then
        (let s1 = rev (dropWhile (\<lambda>c. c = CHR ''0'') (rev s))
         in if s1 \<noteq> [] \<and> last s1 = CHR ''.'' then butlast s1 else s1)
      else s)"

text \<open>
  \<^verbatim>\<open>to_string\<close>. The test \<^verbatim>\<open>d == static_cast<int64_t>(d)\<close> converts first: a \<^verbatim>\<open>double\<close>
  outside the 64-bit range is undefined behaviour there.
\<close>

definition float_to_string :: "real \<Rightarrow> UB + string" where
  "float_to_string d =
     (let t = trunc d
      in if \<not> (- (2 ^ 63) \<le> t \<and> t < 2 ^ 63) then Inl FloatToIntOverflow
         else let s = (if d = real_of_int t \<and> \<bar>d\<bar> < 10 ^ 10 then std_to_string_int t
                       else trim_zeros (std_to_string_double d))
              in Inr ((if 0 \<le> d then '' '' @ s else s) @ '' ''))"

fun to_string :: "Value \<Rightarrow> UB + string" where
  "to_string (Str s) = Inr s"
| "to_string (Int16 i) =
     (let s = std_to_string_int (sint i)
      in Inr ((if 0 \<le> sint i then '' '' @ s else s) @ '' ''))"
| "to_string (Float32 f) = float_to_string f"
| "to_string (Float64 d) = float_to_string d"

subsection \<open>\<^verbatim>\<open>std::stod\<close>\<close>

text \<open>
  \<^verbatim>\<open>std::stod\<close> calls \<^verbatim>\<open>strtod\<close>. That function skips leading white space, takes an
  optional sign and then the longest text of one of three forms, ignoring what follows:
  \<^verbatim>\<open>INF\<close> or \<^verbatim>\<open>NAN\<close> in any case; \<^verbatim>\<open>0x\<close> or \<^verbatim>\<open>0X\<close>, hexadecimal digits with an optional
  point (at least one digit) and an exponent of two if \<^verbatim>\<open>p\<close> or \<^verbatim>\<open>P\<close> is followed by an
  optionally signed decimal digit; decimal digits with an optional point (at least one
  digit) and an exponent of ten if \<^verbatim>\<open>e\<close> or \<^verbatim>\<open>E\<close> is followed by an optionally signed digit.
\<close>

definition isxdigit :: "char \<Rightarrow> bool" where
  "isxdigit c =
     (let n = (of_char c :: nat)
      in (48 \<le> n \<and> n \<le> 57) \<or> (65 \<le> n \<and> n \<le> 70) \<or> (97 \<le> n \<and> n \<le> 102))"

definition xdigit_value :: "char \<Rightarrow> nat" where
  "xdigit_value c =
     (let n = (of_char c :: nat)
      in if n \<le> 57 then n - 48 else if n \<le> 70 then n - 55 else n - 87)"

definition xdigits_value :: "string \<Rightarrow> nat" where
  "xdigits_value ds = foldl (\<lambda>acc c. 16 * acc + xdigit_value c) 0 ds"

text \<open>The exponent that the text \<open>s\<close> starts with, after the letter \<open>lower\<close> or \<open>upper\<close>.\<close>

definition exponent_part :: "char \<Rightarrow> char \<Rightarrow> string \<Rightarrow> int" where
  "exponent_part lower upper s =
     (case s of
        [] \<Rightarrow> 0
      | c # r \<Rightarrow>
          if c = lower \<or> c = upper then
            (let neg = (r \<noteq> [] \<and> hd r = CHR ''-'');
                 r1 = (if r \<noteq> [] \<and> (hd r = CHR ''-'' \<or> hd r = CHR ''+'') then tl r else r);
                 es = takeWhile isdigit r1
             in if es = [] then 0
                else if neg then - int (digits_value es) else int (digits_value es))
          else 0)"

definition stod_exponent :: "string \<Rightarrow> int" where
  "stod_exponent s = exponent_part CHR ''e'' CHR ''E'' s"

text \<open>
  The magnitude of a decimal text and of the hexadecimal text after \<^verbatim>\<open>0x\<close>; \<open>None\<close> when
  the text starts with no digit of that form. The value is the exact one: its rounding to
  the nearest \<^verbatim>\<open>double\<close> is outside the model.
\<close>

definition strtod_decimal :: "string \<Rightarrow> real option" where
  "strtod_decimal s1 =
     (let ds = takeWhile isdigit s1;
          r1 = dropWhile isdigit s1;
          fs = (if r1 \<noteq> [] \<and> hd r1 = CHR ''.'' then takeWhile isdigit (tl r1) else []);
          r2 = (if r1 \<noteq> [] \<and> hd r1 = CHR ''.'' then dropWhile isdigit (tl r1) else r1)
      in if ds = [] \<and> fs = [] then None
         else Some (real (digits_value (ds @ fs)) / 10 ^ length fs
                      * power_int 10 (stod_exponent r2)))"

definition strtod_hex :: "string \<Rightarrow> real option" where
  "strtod_hex s2 =
     (let ds = takeWhile isxdigit s2;
          r1 = dropWhile isxdigit s2;
          fs = (if r1 \<noteq> [] \<and> hd r1 = CHR ''.'' then takeWhile isxdigit (tl r1) else []);
          r2 = (if r1 \<noteq> [] \<and> hd r1 = CHR ''.'' then dropWhile isxdigit (tl r1) else r1)
      in if ds = [] \<and> fs = [] then None
         else Some (real (xdigits_value (ds @ fs)) / 16 ^ length fs
                      * power_int 2 (exponent_part CHR ''p'' CHR ''P'' r2)))"

definition hex_prefix :: "string \<Rightarrow> bool" where
  "hex_prefix s1 = (take 2 s1 = ''0x'' \<or> take 2 s1 = ''0X'')"

definition inf_or_nan :: "string \<Rightarrow> bool" where
  "inf_or_nan s1 = (let w = map tolower (take 3 s1) in w = ''inf'' \<or> w = ''nan'')"

text \<open>
  When \<^verbatim>\<open>strtod\<close> sets \<^verbatim>\<open>ERANGE\<close>, as glibc does on x86-64: the magnitude rounds to an
  infinity, or it is not zero, rounds to less than the least normal \<^verbatim>\<open>double\<close>
  \<open>2 powr - 1022\<close> and is no multiple of the least \<^verbatim>\<open>double\<close> \<open>2 powr - 1074\<close>. (The C
  standard leaves the report of an underflow to the implementation.)
\<close>

definition strtod_erange :: "real \<Rightarrow> bool" where
  "strtod_erange m =
     (overflow_threshold \<le> m
      \<or> (0 < m \<and> m < 1 / 2 ^ 1022 - 1 / 2 ^ 1076
           \<and> m * 2 ^ 1074 \<noteq> real_of_int \<lfloor>m * 2 ^ 1074\<rfloor>))"

text \<open>
  \<^verbatim>\<open>std::stod\<close> throws \<^verbatim>\<open>std::invalid_argument\<close> when \<^verbatim>\<open>strtod\<close> found no number and
  \<^verbatim>\<open>std::out_of_range\<close> when it set \<^verbatim>\<open>ERANGE\<close>. Of \<^verbatim>\<open>0x\<close> with no hexadecimal digit after it
  the \<^verbatim>\<open>0\<close> is read as a decimal number. \<open>NonFiniteDouble\<close> is the infinity or NaN returned
  for \<^verbatim>\<open>INF\<close> and \<^verbatim>\<open>NAN\<close>.
\<close>

datatype std_exception = invalid_argument | out_of_range

datatype stod_result = Double real | NonFiniteDouble | Thrown std_exception

definition stod :: "string \<Rightarrow> stod_result" where
  "stod str =
     (let s = dropWhile isspace str;
          neg = (s \<noteq> [] \<and> hd s = CHR ''-'');
          s1 = (if s \<noteq> [] \<and> (hd s = CHR ''-'' \<or> hd s = CHR ''+'') then tl s else s)
      in if inf_or_nan s1 then NonFiniteDouble
         else case (case (if hex_prefix s1 then strtod_hex (drop 2 s1) else None) of
                      Some h \<Rightarrow> Some h
                    | None \<Rightarrow> strtod_decimal s1) of
                None \<Rightarrow> Thrown invalid_argument
              | Some m \<Rightarrow>
                  if strtod_erange m then Thrown out_of_range
                  else Double (if neg then - m else m))"

subsection \<open>\<^verbatim>\<open>STR$\<close> and \<^verbatim>\<open>VAL\<close> (interpreter.cpp)\<close>

definition ILLEGAL_FUNCTION_CALL :: int where "ILLEGAL_FUNCTION_CALL = 5"

definition builtin_str :: "Runtime \<Rightarrow> Value list \<Rightarrow> Value result" where
  "builtin_str rt args =
     (case args of
        [] \<Rightarrow> raise_error rt ILLEGAL_FUNCTION_CALL
      | a # _ \<Rightarrow>
          (case to_string a of
             Inl u \<Rightarrow> Inl (UndefinedBehaviour u, rt)
           | Inr s \<Rightarrow> Inr (Str s)))"

text \<open>
  \<^verbatim>\<open>VAL\<close>: \<^verbatim>\<open>std::get<std::string>\<close> of the argument, then \<^verbatim>\<open>std::stod\<close>, and 0 when that
  throws (\<^verbatim>\<open>catch (...)\<close>).
\<close>

definition builtin_val :: "Runtime \<Rightarrow> Value list \<Rightarrow> Value result" where
  "builtin_val rt args =
     (case args of
        [] \<Rightarrow> raise_error rt ILLEGAL_FUNCTION_CALL
      | a # _ \<Rightarrow>
          (case a of
             Str s \<Rightarrow>
               (case stod s of
                  Double v \<Rightarrow> Inr (Float64 v)
                | NonFiniteDouble \<Rightarrow> Inl (NonFinite, rt)
                | Thrown _ \<Rightarrow> Inr (Float64 0))
           | _ \<Rightarrow> Inl (BadVariantAccess, rt)))"


section \<open>The expression parser (parser.cpp)\<close>

text \<open>
  The parser's members: the token vector, the index of the current token and the type map
  filled by the first pass.
\<close>

record Parser =
  tokens :: "Token list"
  pos :: nat
  parser_def_type_map :: "char \<rightharpoonup> VarType"

text \<open>
  What a parsing function throws: a \<^verbatim>\<open>ParseError\<close> with its message, or an exception of
  \<^verbatim>\<open>std::stod\<close>, which no parsing function catches. \<open>NonFiniteLiteral\<close> stands for a literal
  that \<^verbatim>\<open>std::stod\<close> reads as an infinity or a NaN: the parser goes on with it, and the
  model, which has no such number, stops there.
\<close>

datatype ParseFailure = ParseError string | StdException std_exception | NonFiniteLiteral

text \<open>
  The parsing functions call each other recursively, so each takes a bound on the depth of
  calls it may still open: every call passes on one less, and \<open>None\<close> means the bound was
  reached. Otherwise the result is what was thrown, or the parsed value with the parser
  after it.
\<close>

type_synonym 'a parsed = "(ParseFailure + 'a) option"

definition current :: "Parser \<Rightarrow> Token" where
  "current p = (if length (tokens p) \<le> pos p then (END_OF_FILE, []) else tokens p ! pos p)"

definition advance :: "Parser \<Rightarrow> Parser" where
  "advance p = (if pos p < length (tokens p) then p\<lparr>pos := pos p + 1\<rparr> else p)"

definition check :: "Parser \<Rightarrow> TokenType \<Rightarrow> bool" where
  "check p t = (fst (current p) = t)"

definition expect :: "Parser \<Rightarrow> TokenType \<Rightarrow> string \<Rightarrow> ParseFailure + Parser" where
  "expect p t msg = (if check p t then Inr (advance p) else Inl (ParseError msg))"

definition Parser_resolve_type :: "Parser \<Rightarrow> string \<Rightarrow> VarType" where
  "Parser_resolve_type p name =
     (if name \<noteq> [] \<and> last name = CHR ''%'' then INTEGER
      else if name \<noteq> [] \<and> last name = CHR ''!'' then SINGLE
      else if name \<noteq> [] \<and> last name = CHR ''#'' then DOUBLE
      else if name \<noteq> [] \<and> last name = CHR ''$'' then STRING
      else if name \<noteq> [] \<and> isalpha (hd name)
        then (case parser_def_type_map p (tolower (hd name)) of Some t \<Rightarrow> t | None \<Rightarrow> SINGLE)
      else SINGLE)"

text \<open>The set \<^verbatim>\<open>functions\<close> of \<^verbatim>\<open>parse_primary\<close>: the built-in function tokens.\<close>

fun is_builtin :: "TokenType \<Rightarrow> bool" where
  "is_builtin (BUILTIN name) = True"
| "is_builtin _ = False"

text \<open>
  The functions are mutually recursive. They are defined together as one function on the
  bound and the name of the parsing function (\<open>parse\<close>, and \<open>parse_list\<close> for the two
  that return a list), one equation for each parsing function of the source. A \<^verbatim>\<open>while\<close>
  loop is a function of its own, named after its parsing function (\<open>imp_loop\<close> for the
  loop of \<^verbatim>\<open>parse_imp_expr\<close>), with the expression built so far as argument, and
  \<open>call_arguments\<close> is the argument list with its closing parenthesis, which
  \<^verbatim>\<open>parse_primary\<close> writes out four times.
\<close>

datatype production =
    N_expression
  | N_imp_expr
  | N_eqv_expr
  | N_xor_expr
  | N_or_expr
  | N_and_expr
  | N_comparison
  | N_additive
  | N_mod_expr
  | N_int_div_expr
  | N_multiplicative
  | N_not_expr
  | N_unary
  | N_power
  | N_primary
  | N_imp_loop Expr
  | N_eqv_loop Expr
  | N_xor_loop Expr
  | N_or_loop Expr
  | N_and_loop Expr
  | N_comparison_loop Expr
  | N_additive_loop Expr
  | N_mod_loop Expr
  | N_int_div_loop Expr
  | N_multiplicative_loop Expr

datatype list_production = N_expression_list | N_call_arguments string

fun parse :: "nat \<Rightarrow> production \<Rightarrow> Parser \<Rightarrow> (Expr \<times> Parser) parsed"
  and parse_list :: "nat \<Rightarrow> list_production \<Rightarrow> Parser \<Rightarrow> (Expr list \<times> Parser) parsed" where
  "parse 0 t p = None"
| "parse (Suc n) N_expression p =
     parse n N_imp_expr p"
| "parse (Suc n) N_imp_expr p =
     (case parse n N_eqv_expr p of
        None \<Rightarrow> None
      | Some (Inl x) \<Rightarrow> Some (Inl x)
      | Some (Inr (left, p1)) \<Rightarrow> parse n (N_imp_loop left) p1)"
| "parse (Suc n) N_eqv_expr p =
     (case parse n N_xor_expr p of
        None \<Rightarrow> None
      | Some (Inl x) \<Rightarrow> Some (Inl x)
      | Some (Inr (left, p1)) \<Rightarrow> parse n (N_eqv_loop left) p1)"
| "parse (Suc n) N_xor_expr p =
     (case parse n N_or_expr p of
        None \<Rightarrow> None
      | Some (Inl x) \<Rightarrow> Some (Inl x)
      | Some (Inr (left, p1)) \<Rightarrow> parse n (N_xor_loop left) p1)"
| "parse (Suc n) N_or_expr p =
     (case parse n N_and_expr p of
        None \<Rightarrow> None
      | Some (Inl x) \<Rightarrow> Some (Inl x)
      | Some (Inr (left, p1)) \<Rightarrow> parse n (N_or_loop left) p1)"
| "parse (Suc n) N_and_expr p =
     (case parse n N_not_expr p of
        None \<Rightarrow> None
      | Some (Inl x) \<Rightarrow> Some (Inl x)
      | Some (Inr (left, p1)) \<Rightarrow> parse n (N_and_loop left) p1)"
| "parse (Suc n) N_comparison p =
     (case parse n N_additive p of
        None \<Rightarrow> None
      | Some (Inl x) \<Rightarrow> Some (Inl x)
      | Some (Inr (left, p1)) \<Rightarrow> parse n (N_comparison_loop left) p1)"
| "parse (Suc n) N_additive p =
     (case parse n N_mod_expr p of
        None \<Rightarrow> None
      | Some (Inl x) \<Rightarrow> Some (Inl x)
      | Some (Inr (left, p1)) \<Rightarrow> parse n (N_additive_loop left) p1)"
| "parse (Suc n) N_mod_expr p =
     (case parse n N_int_div_expr p of
        None \<Rightarrow> None
      | Some (Inl x) \<Rightarrow> Some (Inl x)
      | Some (Inr (left, p1)) \<Rightarrow> parse n (N_mod_loop left) p1)"
| "parse (Suc n) N_int_div_expr p =
     (case parse n N_multiplicative p of
        None \<Rightarrow> None
      | Some (Inl x) \<Rightarrow> Some (Inl x)
      | Some (Inr (left, p1)) \<Rightarrow> parse n (N_int_div_loop left) p1)"
| "parse (Suc n) N_multiplicative p =
     (case parse n N_unary p of
        None \<Rightarrow> None
      | Some (Inl x) \<Rightarrow> Some (Inl x)
      | Some (Inr (left, p1)) \<Rightarrow> parse n (N_multiplicative_loop left) p1)"
| "parse (Suc n) N_not_expr p =
     (if check p NOT then
        (case parse n N_not_expr (advance p) of
           None \<Rightarrow> None
         | Some (Inl x) \<Rightarrow> Some (Inl x)
         | Some (Inr (operand, p1)) \<Rightarrow> Some (Inr (UnaryExpr NOT operand, p1)))
      else parse n N_comparison p)"
| "parse (Suc n) N_unary p =
     (if check p MINUS \<or> check p PLUS then
        (case parse n N_unary (advance p) of
           None \<Rightarrow> None
         | Some (Inl x) \<Rightarrow> Some (Inl x)
         | Some (Inr (operand, p1)) \<Rightarrow>
             if fst (current p) = MINUS then Some (Inr (UnaryExpr MINUS operand, p1))
             else Some (Inr (operand, p1)))
      else parse n N_power p)"
| "parse (Suc n) N_power p =
     (case parse n N_primary p of
        None \<Rightarrow> None
      | Some (Inl x) \<Rightarrow> Some (Inl x)
      | Some (Inr (left, p1)) \<Rightarrow>
          if check p1 POWER then
            (case parse n N_power (advance p1) of
               None \<Rightarrow> None
             | Some (Inl x) \<Rightarrow> Some (Inl x)
             | Some (Inr (right, p2)) \<Rightarrow> Some (Inr (BinaryExpr POWER left right, p2)))
          else Some (Inr (left, p1)))"
| "parse (Suc n) N_primary p =
     (if check p NUMBER then
        (case stod (snd (current p)) of
           Thrown x \<Rightarrow> Some (Inl (StdException x))
         | NonFiniteDouble \<Rightarrow> Some (Inl NonFiniteLiteral)
         | Double v \<Rightarrow> Some (Inr (NumberExpr v, advance p)))
      else if check p STRING_TOKEN then Some (Inr (StringExpr (snd (current p)), advance p))
      else if check p LPAREN then
        (case parse n N_expression (advance p) of
           None \<Rightarrow> None
         | Some (Inl x) \<Rightarrow> Some (Inl x)
         | Some (Inr (e, p1)) \<Rightarrow>
             (case expect p1 RPAREN ''Expected ')' after expression'' of
                Inl x \<Rightarrow> Some (Inl x)
              | Inr p2 \<Rightarrow> Some (Inr (e, p2))))
      else if check p ERR then Some (Inr (VariableExpr ''err%'' INTEGER, advance p))
      else if check p ERL then Some (Inr (VariableExpr ''erl%'' INTEGER, advance p))
      else if check p FN then
        (let p1 = advance p
         in if \<not> check p1 IDENTIFIER
            then Some (Inl (ParseError ''Expected function name after FN''))
            else let name = ''fn'' @ snd (current p1); p2 = advance p1
                 in if check p2 LPAREN then
                      (case parse_list n (N_call_arguments ''Expected ')' after function arguments'') (advance p2) of
                         None \<Rightarrow> None
                       | Some (Inl x) \<Rightarrow> Some (Inl x)
                       | Some (Inr (args, p3)) \<Rightarrow> Some (Inr (FunctionCallExpr name args, p3)))
                    else Some (Inr (FunctionCallExpr name [], p2)))
      else if is_builtin (fst (current p)) then
        (let name = snd (current p); p1 = advance p
         in if check p1 LPAREN then
              (case parse_list n (N_call_arguments ''Expected ')' after function arguments'') (advance p1) of
                 None \<Rightarrow> None
               | Some (Inl x) \<Rightarrow> Some (Inl x)
               | Some (Inr (args, p2)) \<Rightarrow> Some (Inr (FunctionCallExpr name args, p2)))
            else Some (Inr (FunctionCallExpr name [], p1)))
      else if check p IDENTIFIER then
        (let name = snd (current p); t = Parser_resolve_type p name; p1 = advance p
         in if 2 < length name \<and> take 2 name = ''fn'' \<and> check p1 LPAREN then
              (case parse_list n (N_call_arguments ''Expected ')' after function arguments'') (advance p1) of
                 None \<Rightarrow> None
               | Some (Inl x) \<Rightarrow> Some (Inl x)
               | Some (Inr (args, p2)) \<Rightarrow> Some (Inr (FunctionCallExpr name args, p2)))
            else if check p1 LPAREN then
              (case parse_list n (N_call_arguments ''Expected ')' after subscripts'') (advance p1) of
                 None \<Rightarrow> None
               | Some (Inl x) \<Rightarrow> Some (Inl x)
               | Some (Inr (indices, p2)) \<Rightarrow> Some (Inr (ArrayAccessExpr name indices t, p2)))
            else Some (Inr (VariableExpr name t, p1)))
      else Some (Inl (ParseError ''Missing operand'')))"
| "parse (Suc n) (N_imp_loop left) p =
     (if check p IMP then
        (case parse n N_eqv_expr (advance p) of
           None \<Rightarrow> None
         | Some (Inl x) \<Rightarrow> Some (Inl x)
         | Some (Inr (right, p1)) \<Rightarrow>
             parse n (N_imp_loop (BinaryExpr IMP left right)) p1)
      else Some (Inr (left, p)))"
| "parse (Suc n) (N_eqv_loop left) p =
     (if check p EQV then
        (case parse n N_xor_expr (advance p) of
           None \<Rightarrow> None
         | Some (Inl x) \<Rightarrow> Some (Inl x)
         | Some (Inr (right, p1)) \<Rightarrow>
             parse n (N_eqv_loop (BinaryExpr EQV left right)) p1)
      else Some (Inr (left, p)))"
| "parse (Suc n) (N_xor_loop left) p =
     (if check p XOR then
        (case parse n N_or_expr (advance p) of
           None \<Rightarrow> None
         | Some (Inl x) \<Rightarrow> Some (Inl x)
         | Some (Inr (right, p1)) \<Rightarrow>
             parse n (N_xor_loop (BinaryExpr XOR left right)) p1)
      else Some (Inr (left, p)))"
| "parse (Suc n) (N_or_loop left) p =
     (if check p OR then
        (case parse n N_and_expr (advance p) of
           None \<Rightarrow> None
         | Some (Inl x) \<Rightarrow> Some (Inl x)
         | Some (Inr (right, p1)) \<Rightarrow>
             parse n (N_or_loop (BinaryExpr OR left right)) p1)
      else Some (Inr (left, p)))"
| "parse (Suc n) (N_and_loop left) p =
     (if check p AND then
        (case parse n N_not_expr (advance p) of
           None \<Rightarrow> None
         | Some (Inl x) \<Rightarrow> Some (Inl x)
         | Some (Inr (right, p1)) \<Rightarrow>
             parse n (N_and_loop (BinaryExpr AND left right)) p1)
      else Some (Inr (left, p)))"
| "parse (Suc n) (N_comparison_loop left) p =
     (if check p EQUAL \<or> check p NOT_EQUAL \<or> check p LESS_THAN \<or> check p GREATER_THAN \<or> check p LESS_EQUAL \<or> check p GREATER_EQUAL then
        (case parse n N_additive (advance p) of
           None \<Rightarrow> None
         | Some (Inl x) \<Rightarrow> Some (Inl x)
         | Some (Inr (right, p1)) \<Rightarrow>
             parse n (N_comparison_loop (BinaryExpr (fst (current p)) left right)) p1)
      else Some (Inr (left, p)))"
| "parse (Suc n) (N_additive_loop left) p =
     (if check p PLUS \<or> check p MINUS then
        (case parse n N_mod_expr (advance p) of
           None \<Rightarrow> None
         | Some (Inl x) \<Rightarrow> Some (Inl x)
         | Some (Inr (right, p1)) \<Rightarrow>
             parse n (N_additive_loop (BinaryExpr (fst (current p)) left right)) p1)
      else Some (Inr (left, p)))"
| "parse (Suc n) (N_mod_loop left) p =
     (if check p MOD then
        (case parse n N_int_div_expr (advance p) of
           None \<Rightarrow> None
         | Some (Inl x) \<Rightarrow> Some (Inl x)
         | Some (Inr (right, p1)) \<Rightarrow>
             parse n (N_mod_loop (BinaryExpr MOD left right)) p1)
      else Some (Inr (left, p)))"
| "parse (Suc n) (N_int_div_loop left) p =
     (if check p BACKSLASH then
        (case parse n N_multiplicative (advance p) of
           None \<Rightarrow> None
         | Some (Inl x) \<Rightarrow> Some (Inl x)
         | Some (Inr (right, p1)) \<Rightarrow>
             parse n (N_int_div_loop (BinaryExpr BACKSLASH left right)) p1)
      else Some (Inr (left, p)))"
| "parse (Suc n) (N_multiplicative_loop left) p =
     (if check p MULTIPLY \<or> check p DIVIDE then
        (case parse n N_unary (advance p) of
           None \<Rightarrow> None
         | Some (Inl x) \<Rightarrow> Some (Inl x)
         | Some (Inr (right, p1)) \<Rightarrow>
             parse n (N_multiplicative_loop (BinaryExpr (fst (current p)) left right)) p1)
      else Some (Inr (left, p)))"
| "parse_list 0 t p = None"
| "parse_list (Suc n) N_expression_list p =
     (case parse n N_expression p of
        None \<Rightarrow> None
      | Some (Inl x) \<Rightarrow> Some (Inl x)
      | Some (Inr (e, p1)) \<Rightarrow>
          if check p1 COMMA then
            (case parse_list n N_expression_list (advance p1) of
               None \<Rightarrow> None
             | Some (Inl x) \<Rightarrow> Some (Inl x)
             | Some (Inr (es, p2)) \<Rightarrow> Some (Inr (e # es, p2)))
          else Some (Inr ([e], p1)))"
| "parse_list (Suc n) (N_call_arguments msg) p =
     (if check p RPAREN then Some (Inr ([], advance p))
      else case parse_list n N_expression_list p of
             None \<Rightarrow> None
           | Some (Inl x) \<Rightarrow> Some (Inl x)
           | Some (Inr (args, p1)) \<Rightarrow>
               (case expect p1 RPAREN msg of
                  Inl x \<Rightarrow> Some (Inl x)
                | Inr p2 \<Rightarrow> Some (Inr (args, p2))))"

definition parse_expression :: "nat \<Rightarrow> Parser \<Rightarrow> (Expr \<times> Parser) parsed" where
  "parse_expression n p = parse n N_expression p"

definition parse_imp_expr :: "nat \<Rightarrow> Parser \<Rightarrow> (Expr \<times> Parser) parsed" where
  "parse_imp_expr n p = parse n N_imp_expr p"

definition parse_eqv_expr :: "nat \<Rightarrow> Parser \<Rightarrow> (Expr \<times> Parser) parsed" where
  "parse_eqv_expr n p = parse n N_eqv_expr p"

definition parse_xor_expr :: "nat \<Rightarrow> Parser \<Rightarrow> (Expr \<times> Parser) parsed" where
  "parse_xor_expr n p = parse n N_xor_expr p"

definition parse_or_expr :: "nat \<Rightarrow> Parser \<Rightarrow> (Expr \<times> Parser) parsed" where
  "parse_or_expr n p = parse n N_or_expr p"

definition parse_and_expr :: "nat \<Rightarrow> Parser \<Rightarrow> (Expr \<times> Parser) parsed" where
  "parse_and_expr n p = parse n N_and_expr p"

definition parse_comparison :: "nat \<Rightarrow> Parser \<Rightarrow> (Expr \<times> Parser) parsed" where
  "parse_comparison n p = parse n N_comparison p"

definition parse_additive :: "nat \<Rightarrow> Parser \<Rightarrow> (Expr \<times> Parser) parsed" where
  "parse_additive n p = parse n N_additive p"

definition parse_mod_expr :: "nat \<Rightarrow> Parser \<Rightarrow> (Expr \<times> Parser) parsed" where
  "parse_mod_expr n p = parse n N_mod_expr p"

definition parse_int_div_expr :: "nat \<Rightarrow> Parser \<Rightarrow> (Expr \<times> Parser) parsed" where
  "parse_int_div_expr n p = parse n N_int_div_expr p"

definition parse_multiplicative :: "nat \<Rightarrow> Parser \<Rightarrow> (Expr \<times> Parser) parsed" where
  "parse_multiplicative n p = parse n N_multiplicative p"

definition parse_not_expr :: "nat \<Rightarrow> Parser \<Rightarrow> (Expr \<times> Parser) parsed" where
  "parse_not_expr n p = parse n N_not_expr p"

definition parse_unary :: "nat \<Rightarrow> Parser \<Rightarrow> (Expr \<times> Parser) parsed" where
  "parse_unary n p = parse n N_unary p"

definition parse_power :: "nat \<Rightarrow> Parser \<Rightarrow> (Expr \<times> Parser) parsed" where
  "parse_power n p = parse n N_power p"

definition parse_primary :: "nat \<Rightarrow> Parser \<Rightarrow> (Expr \<times> Parser) parsed" where
  "parse_primary n p = parse n N_primary p"

definition imp_loop :: "nat \<Rightarrow> Expr \<Rightarrow> Parser \<Rightarrow> (Expr \<times> Parser) parsed" where
  "imp_loop n left p = parse n (N_imp_loop left) p"

definition eqv_loop :: "nat \<Rightarrow> Expr \<Rightarrow> Parser \<Rightarrow> (Expr \<times> Parser) parsed" where
  "eqv_loop n left p = parse n (N_eqv_loop left) p"

definition xor_loop :: "nat \<Rightarrow> Expr \<Rightarrow> Parser \<Rightarrow> (Expr \<times> Parser) parsed" where
  "xor_loop n left p = parse n (N_xor_loop left) p"

definition or_loop :: "nat \<Rightarrow> Expr \<Rightarrow> Parser \<Rightarrow> (Expr \<times> Parser) parsed" where
  "or_loop n left p = parse n (N_or_loop left) p"

definition and_loop :: "nat \<Rightarrow> Expr \<Rightarrow> Parser \<Rightarrow> (Expr \<times> Parser) parsed" where
  "and_loop n left p = parse n (N_and_loop left) p"

definition comparison_loop :: "nat \<Rightarrow> Expr \<Rightarrow> Parser \<Rightarrow> (Expr \<times> Parser) parsed" where
  "comparison_loop n left p = parse n (N_comparison_loop left) p"

definition additive_loop :: "nat \<Rightarrow> Expr \<Rightarrow> Parser \<Rightarrow> (Expr \<times> Parser) parsed" where
  "additive_loop n left p = parse n (N_additive_loop left) p"

definition mod_loop :: "nat \<Rightarrow> Expr \<Rightarrow> Parser \<Rightarrow> (Expr \<times> Parser) parsed" where
  "mod_loop n left p = parse n (N_mod_loop left) p"

definition int_div_loop :: "nat \<Rightarrow> Expr \<Rightarrow> Parser \<Rightarrow> (Expr \<times> Parser) parsed" where
  "int_div_loop n left p = parse n (N_int_div_loop left) p"

definition multiplicative_loop :: "nat \<Rightarrow> Expr \<Rightarrow> Parser \<Rightarrow> (Expr \<times> Parser) parsed" where
  "multiplicative_loop n left p = parse n (N_multiplicative_loop left) p"

definition parse_expression_list :: "nat \<Rightarrow> Parser \<Rightarrow> (Expr list \<times> Parser) parsed" where
  "parse_expression_list n p = parse_list n N_expression_list p"

definition call_arguments :: "nat \<Rightarrow> string \<Rightarrow> Parser \<Rightarrow> (Expr list \<times> Parser) parsed" where
  "call_arguments n msg p = parse_list n (N_call_arguments msg) p"

section \<open>Predicates and example states of the statements below\<close>


text \<open>A container that puts every new key first.\<close>

definition front_slot :: "'k slot" where
  "front_slot k ks = 0"

text \<open>The line \<^verbatim>\<open>10 DATA 1,2 : DATA 3,4\<close>.\<close>

definition C4_program :: Program where
  "C4_program =
     \<lparr>lines = [\<lparr>line_number = 10,
                line_statements = [DataStmt [Float64 1, Float64 2], DataStmt [Float64 3, Float64 4]],
                source_text = ''10 DATA 1,2 : DATA 3,4''\<rparr>],
      program_def_type_map = def_type_map Runtime_init\<rparr>"

text \<open>
  A subroutine entered by \<^verbatim>\<open>GOSUB\<close> from line 10 that has started a \<^verbatim>\<open>WHILE\<close> loop on line
  110 and now stands at a \<^verbatim>\<open>RETURN\<close> on line 130.
\<close>

definition C3_runtime :: Runtime where
  "C3_runtime =
     Runtime_init\<lparr>pc := running_at 130 0,
       exec_stack := [(new_entry GOSUB)\<lparr>return_pc := running_at 20 0\<rparr>,
                      (new_entry WHILE)\<lparr>loop_pc := running_at 110 0\<rparr>]\<rparr>"




text \<open>A runtime with no captured error in which the program has stored 11 in \<^verbatim>\<open>ERR%\<close>.\<close>

definition C10_runtime :: Runtime where
  "C10_runtime = set_variable Runtime_init ''err%'' (Float64 11)"



text \<open>
  The states of a run from a new runtime that executes \<^verbatim>\<open>FOR I% = 1 TO 3\<close> on line 10,
  \<^verbatim>\<open>FOR J% = 1 TO 3\<close> on line 20, \<^verbatim>\<open>FOR I% = 1 TO 3\<close> again on line 30 and a bare
  \<^verbatim>\<open>NEXT\<close> on line 40, in a container that puts every new key first.
\<close>

definition C2_state :: "int \<Rightarrow> ForLoopState" where
  "C2_state l = \<lparr>resume_pc = running_at l 0, end_value = 3, step_value = 1\<rparr>"

definition C2_rt1 :: Runtime where
  "C2_rt1 =
     Runtime_init\<lparr>pc := running_at 10 0,
       variables := (variables Runtime_init)(''i%'' \<mapsto> Int16 1),
       for_states := [(''i%'', C2_state 10)]\<rparr>"

definition C2_rt2 :: Runtime where
  "C2_rt2 =
     C2_rt1\<lparr>pc := running_at 20 0,
       variables := (variables C2_rt1)(''j%'' \<mapsto> Int16 1),
       for_states := [(''j%'', C2_state 20), (''i%'', C2_state 10)]\<rparr>"

definition C2_rt3 :: Runtime where
  "C2_rt3 =
     C2_rt2\<lparr>pc := running_at 30 0,
       variables := (variables C2_rt2)(''i%'' \<mapsto> Int16 1),
       for_states := [(''j%'', C2_state 20), (''i%'', C2_state 30)]\<rparr>"

definition C2_after2 :: Runtime where
  "C2_after2 =
     C2_rt2\<lparr>pc := running_at 30 0,
       variables := (variables C2_rt2)(''j%'' \<mapsto> Int16 2),
       next_pc := Some (halted END)\<rparr>"

definition C2_after3 :: Runtime where
  "C2_after3 =
     C2_rt3\<lparr>pc := running_at 40 0,
       variables := (variables C2_rt3)(''j%'' \<mapsto> Int16 2),
       next_pc := Some (halted END)\<rparr>"

text \<open>A digit string without its trailing zeros, as the first loop of the trimming leaves it.\<close>

definition strip0 :: "string \<Rightarrow> string" where
  "strip0 F = rev (dropWhile (\<lambda>c. c = CHR ''0'') (rev F))"


section \<open>Assignment between strings and numbers\<close>

text \<open>
  Claim C1 says that assigning a string to a numeric variable, or a number to a string
  variable, raises \<^verbatim>\<open>Type mismatch\<close>. The code does not: in any runtime
  \<^verbatim>\<open>A% = "HELLO"\<close> returns normally and stores the integer 0, and \<^verbatim>\<open>A$ = 5\<close> returns
  normally and stores the empty string.
\<close>

theorem C1_assignment_never_raises:
  "exec_let rt ''a%'' INTEGER (StringExpr ''HELLO'')
     = Inr (rt\<lparr>variables := (variables rt)(''a%'' \<mapsto> Int16 0)\<rparr>)
   \<and> exec_let rt ''a$'' STRING (NumberExpr 5)
     = Inr (rt\<lparr>variables := (variables rt)(''a$'' \<mapsto> Str [])\<rparr>)"
  by (simp add: exec_let_def set_lvalue_def set_variable_def resolve_type_def to_integer_def
      rint_def)


section \<open>NEXT with no variable\<close>

lemma to_integer_small:
  "to_integer (Float64 1) = 1" "to_integer (Float64 2) = 2" "to_integer (Int16 1) = 1"
  by (simp_all add: to_integer_def rint_def Let_def)

lemma resolve_type_percent: "resolve_type rt ''i%'' = INTEGER" "resolve_type rt ''j%'' = INTEGER"
  by (simp_all add: resolve_type_def)

lemma exec_for_1_to_3:
  "exec_for slot rt v (NumberExpr 1) (NumberExpr 3) None
     = Some (Inr (rt\<lparr>variables := (variables rt)(v \<mapsto> coerce_to (Float64 1) (resolve_type rt v)),
          for_states := um_assign slot v \<lparr>resume_pc = pc rt, end_value = 3, step_value = 1\<rparr>
                          (for_states rt)\<rparr>))"
  by (simp add: exec_for_def Let_def set_variable_def)

lemma um_assign_second:
  "um_assign slot ''j%'' s [(''i%'', t)] = [(''j%'', s), (''i%'', t)]
   \<or> um_assign slot ''j%'' s [(''i%'', t)] = [(''i%'', t), (''j%'', s)]"
  by (cases "slot ''j%'' [''i%'']") (auto simp: um_assign_def Let_def min_def)

text \<open>
  Claim C2 says that a bare \<^verbatim>\<open>NEXT\<close> steps the loop variable of the \<^verbatim>\<open>FOR\<close> executed
  last. The code steps the first record of the hash container, wherever that stands.
  Start with no active loop and execute \<^verbatim>\<open>FOR I%\<close>, then \<^verbatim>\<open>FOR J%\<close>: the container lists
  \<open>j%\<close> first or \<open>i%\<close> first. Executing \<^verbatim>\<open>FOR I%\<close> once more assigns to a key that is
  present and leaves that order as it is. So whatever the container does with a new key,
  a bare \<^verbatim>\<open>NEXT\<close> after the second \<^verbatim>\<open>FOR\<close> steps \<open>i%\<close> and not \<open>j%\<close>, or a bare
  \<^verbatim>\<open>NEXT\<close> after the third \<^verbatim>\<open>FOR\<close> steps \<open>j%\<close> and not \<open>i%\<close>: in one of the two
  programs it is not the loop of the \<^verbatim>\<open>FOR\<close> executed last that is stepped.
\<close>

theorem C2_bare_next_misses_latest_for:
  assumes e: "for_states rt0 = []"
    and r1: "exec_for slot (rt0\<lparr>pc := q1\<rparr>) ''i%'' (NumberExpr 1) (NumberExpr 3) None
              = Some (Inr rt1)"
    and r2: "exec_for slot (rt1\<lparr>pc := q2\<rparr>) ''j%'' (NumberExpr 1) (NumberExpr 3) None
              = Some (Inr rt2)"
    and r3: "exec_for slot (rt2\<lparr>pc := q3\<rparr>) ''i%'' (NumberExpr 1) (NumberExpr 3) None
              = Some (Inr rt3)"
    and n2: "exec_next (rt2\<lparr>pc := q3\<rparr>) [] = Inr after2"
    and n3: "exec_next (rt3\<lparr>pc := q4\<rparr>) [] = Inr after3"
  shows "(get_variable after2 ''i%'' = Int16 2 \<and> get_variable after2 ''j%'' = Int16 1)
       \<or> (get_variable after3 ''j%'' = Int16 2 \<and> get_variable after3 ''i%'' = Int16 1)"
proof -
  let ?s1 = "\<lparr>resume_pc = q1, end_value = 3, step_value = 1\<rparr>"
  let ?s2 = "\<lparr>resume_pc = q2, end_value = 3, step_value = 1\<rparr>"
  let ?s3 = "\<lparr>resume_pc = q3, end_value = 3, step_value = 1\<rparr>"
  have f1: "for_states rt1 = [(''i%'', ?s1)]"
    and v1: "variables rt1 = (variables rt0)(''i%'' \<mapsto> Int16 1)"
    using r1 unfolding exec_for_1_to_3
    by (auto simp: um_assign_def e Let_def resolve_type_percent to_integer_small)
  have f2: "for_states rt2 = um_assign slot ''j%'' ?s2 [(''i%'', ?s1)]"
    and v2: "variables rt2 = (variables rt0)(''i%'' \<mapsto> Int16 1, ''j%'' \<mapsto> Int16 1)"
    using r2 unfolding exec_for_1_to_3
    by (auto simp: f1 v1 resolve_type_percent to_integer_small)
  have v3: "variables rt3 = (variables rt0)(''i%'' \<mapsto> Int16 1, ''j%'' \<mapsto> Int16 1)"
    using r3 unfolding exec_for_1_to_3
    by (auto simp: v2 resolve_type_percent to_integer_small)
  have f3: "for_states rt3 = um_assign slot ''i%'' ?s3 (for_states rt2)"
    using r3 unfolding exec_for_1_to_3 by auto
  from um_assign_second [of slot ?s2 ?s1] show ?thesis
  proof
    assume o: "um_assign slot ''j%'' ?s2 [(''i%'', ?s1)] = [(''j%'', ?s2), (''i%'', ?s1)]"
    have "for_states rt3 = [(''j%'', ?s2), (''i%'', ?s3)]"
      by (simp only: f3 f2 o) (simp add: um_assign_def)
    then have "get_variable after3 ''j%'' = Int16 2 \<and> get_variable after3 ''i%'' = Int16 1"
      using n3
      by (auto simp: exec_next_def um_find_def get_variable_def v3 set_variable_def Let_def
          resolve_type_percent to_integer_small)
    then show ?thesis ..
  next
    assume o: "um_assign slot ''j%'' ?s2 [(''i%'', ?s1)] = [(''i%'', ?s1), (''j%'', ?s2)]"
    have "get_variable after2 ''i%'' = Int16 2 \<and> get_variable after2 ''j%'' = Int16 1"
      using n2
      by (auto simp: exec_next_def f2 o um_find_def get_variable_def v2 set_variable_def Let_def
          resolve_type_percent to_integer_small)
    then show ?thesis ..
  qed
qed

lemma C2_run_1:
  "exec_for front_slot (Runtime_init\<lparr>pc := running_at 10 0\<rparr>) ''i%'' (NumberExpr 1)
     (NumberExpr 3) None = Some (Inr C2_rt1)"
  unfolding exec_for_1_to_3
  by (simp add: C2_rt1_def C2_state_def um_assign_def front_slot_def Runtime_init_def
      resolve_type_percent to_integer_small)

lemma C2_run_2:
  "exec_for front_slot (C2_rt1\<lparr>pc := running_at 20 0\<rparr>) ''j%'' (NumberExpr 1)
     (NumberExpr 3) None = Some (Inr C2_rt2)"
  unfolding exec_for_1_to_3
  by (simp add: C2_rt2_def C2_rt1_def C2_state_def um_assign_def front_slot_def
      resolve_type_percent to_integer_small)

lemma C2_run_3:
  "exec_for front_slot (C2_rt2\<lparr>pc := running_at 30 0\<rparr>) ''i%'' (NumberExpr 1)
     (NumberExpr 3) None = Some (Inr C2_rt3)"
  unfolding exec_for_1_to_3
  by (simp add: C2_rt3_def C2_rt2_def C2_rt1_def C2_state_def um_assign_def front_slot_def
      resolve_type_percent to_integer_small)

lemma C2_run_next2: "exec_next (C2_rt2\<lparr>pc := running_at 30 0\<rparr>) [] = Inr C2_after2"
  by (simp add: exec_next_def C2_after2_def C2_rt2_def C2_rt1_def C2_state_def
      um_find_def get_variable_def set_variable_def Let_def resolve_type_percent
      to_integer_small next_def Runtime_init_def empty_table_def running_at_def)

lemma C2_run_next3: "exec_next (C2_rt3\<lparr>pc := running_at 40 0\<rparr>) [] = Inr C2_after3"
  by (simp add: exec_next_def C2_after3_def C2_rt3_def C2_rt2_def C2_rt1_def C2_state_def
      um_find_def get_variable_def set_variable_def Let_def resolve_type_percent
      to_integer_small next_def Runtime_init_def empty_table_def running_at_def)

theorem C2_bare_next_misses_latest_for_witness:
  "for_states Runtime_init = []
   \<and> exec_for front_slot (Runtime_init\<lparr>pc := running_at 10 0\<rparr>) ''i%'' (NumberExpr 1)
         (NumberExpr 3) None = Some (Inr C2_rt1)
   \<and> exec_for front_slot (C2_rt1\<lparr>pc := running_at 20 0\<rparr>) ''j%'' (NumberExpr 1)
         (NumberExpr 3) None = Some (Inr C2_rt2)
   \<and> exec_for front_slot (C2_rt2\<lparr>pc := running_at 30 0\<rparr>) ''i%'' (NumberExpr 1)
         (NumberExpr 3) None = Some (Inr C2_rt3)
   \<and> exec_next (C2_rt3\<lparr>pc := running_at 40 0\<rparr>) [] = Inr C2_after3
   \<and> get_variable C2_after3 ''j%'' = Int16 2
   \<and> get_variable C2_after3 ''i%'' = Int16 1"
proof -
  have e: "for_states Runtime_init = []"
    by (simp add: Runtime_init_def)
  have i2: "get_variable C2_after2 ''i%'' \<noteq> Int16 2"
    by (simp add: C2_after2_def C2_rt2_def C2_rt1_def get_variable_def)
  show ?thesis
    using C2_bare_next_misses_latest_for
      [OF e C2_run_1 C2_run_2 C2_run_3 C2_run_next2 C2_run_next3] i2
    by (simp add: e C2_run_1 C2_run_2 C2_run_3 C2_run_next3)
qed


section \<open>RETURN and the execution stack\<close>

lemma erase_first_skip:
  "\<forall>e \<in> set xs. \<not> P e \<Longrightarrow> P g \<Longrightarrow> erase_first P (xs @ g # ys) = Some (g, xs @ ys)"
  by (induction xs) auto

text \<open>
  Claim C3 as stated fails: with a \<^verbatim>\<open>WHILE\<close> entry above the \<^verbatim>\<open>GOSUB\<close> entry, \<^verbatim>\<open>RETURN\<close>
  takes the \<^verbatim>\<open>GOSUB\<close> entry out and the \<^verbatim>\<open>WHILE\<close> entry stays on the stack.
\<close>

theorem C3_while_entry_survives_return:
  "exec_return C3_runtime None
     = Inr (C3_runtime\<lparr>next_pc := Some (running_at 20 0),
              exec_stack := [(new_entry WHILE)\<lparr>loop_pc := running_at 110 0\<rparr>]\<rparr>)"
  by (simp add: exec_return_def C3_runtime_def new_entry_def)

text \<open>
  Claim C3, amended. When the stack holds a \<^verbatim>\<open>GOSUB\<close> entry with only \<^verbatim>\<open>WHILE\<close> entries
  above it, \<^verbatim>\<open>RETURN\<close> erases that one entry and keeps every other entry, those above it
  included, in order; the jump target is the entry's \<^verbatim>\<open>return_pc\<close>, or for
  \<^verbatim>\<open>RETURN n\<close> what \<^verbatim>\<open>find_line n\<close> gives.
\<close>

theorem C3_return_erases_gosub_only:
  assumes "exec_stack rt = lower @ g # upper"
    and "type g = GOSUB"
    and "\<forall>e \<in> set upper. type e = WHILE"
  shows "exec_return rt target_line
           = Inr (rt\<lparr>next_pc := Some (case target_line of
                                         Some n \<Rightarrow> find_line (statements rt) n
                                       | None \<Rightarrow> return_pc g),
                     exec_stack := lower @ upper\<rparr>)"
proof -
  have "erase_first (\<lambda>e. type e = GOSUB) (rev upper @ g # rev lower)
      = Some (g, rev upper @ rev lower)"
    using assms(2,3) by (intro erase_first_skip) auto
  then show ?thesis
    using assms(1) by (simp add: exec_return_def)
qed

theorem C3_return_erases_gosub_only_witness:
  "exec_stack C3_runtime
     = [] @ (new_entry GOSUB)\<lparr>return_pc := running_at 20 0\<rparr>
          # [(new_entry WHILE)\<lparr>loop_pc := running_at 110 0\<rparr>]
   \<and> type ((new_entry GOSUB)\<lparr>return_pc := running_at 20 0\<rparr>) = GOSUB
   \<and> exec_return C3_runtime (Some 500)
     = Inr (C3_runtime\<lparr>next_pc := Some (halted ERROR),
              exec_stack := [(new_entry WHILE)\<lparr>loop_pc := running_at 110 0\<rparr>]\<rparr>)"
proof -
  have s: "exec_stack C3_runtime
     = [] @ (new_entry GOSUB)\<lparr>return_pc := running_at 20 0\<rparr>
          # [(new_entry WHILE)\<lparr>loop_pc := running_at 110 0\<rparr>]"
    by (simp add: C3_runtime_def)
  have g: "type ((new_entry GOSUB)\<lparr>return_pc := running_at 20 0\<rparr>) = GOSUB"
    by (simp add: new_entry_def)
  have w: "\<forall>e \<in> set [(new_entry WHILE)\<lparr>loop_pc := running_at 110 0\<rparr>]. type e = WHILE"
    by (simp add: new_entry_def)
  have f: "find_line (statements C3_runtime) 500 = halted ERROR"
    by (simp add: find_line_def C3_runtime_def Runtime_init_def empty_table_def)
  show ?thesis
    using C3_return_erases_gosub_only [OF s g w, of "Some 500"] s g
    by (simp add: f)
qed


section \<open>The data pool's line index\<close>

lemma C4_line_map: "data_line_map (load slot Runtime_init C4_program) = [(10, 2)]"
  by (simp add: load_def collect_data_def collect_line_def C4_program_def um_assign_def Let_def)

lemma C4_values:
  "data_values (load slot Runtime_init C4_program) = [Float64 1, Float64 2, Float64 3, Float64 4]"
  by (simp add: load_def collect_data_def collect_line_def C4_program_def um_assign_def Let_def)

text \<open>
  Claim C4 says that the line index sends a line to the first value of its first \<^verbatim>\<open>DATA\<close>
  statement. The code overwrites the entry at every \<^verbatim>\<open>DATA\<close> statement of the line: for
  \<^verbatim>\<open>10 DATA 1,2 : DATA 3,4\<close> the index of line 10 is 2, and \<^verbatim>\<open>RESTORE 10\<close> followed by
  \<^verbatim>\<open>READ\<close> yields 3, not 1, wherever the container puts its keys.
\<close>

theorem C4_restore_reaches_last_data_statement:
  "um_find 10 (data_line_map (load slot Runtime_init C4_program)) = Some 2
   \<and> map_sum fst fst (read_data (restore_data (load slot Runtime_init C4_program) (Some 10)))
     = Inr (Float64 3)"
  by (simp add: restore_data_def um_find_def C4_line_map C4_values read_data_def)


section \<open>Numerals and powers outside the finite range\<close>

text \<open>
  A numeral too large for a \<^verbatim>\<open>double\<close> makes \<^verbatim>\<open>std::stod\<close> throw, which \<^verbatim>\<open>VAL\<close> turns
  into 0; the hexadecimal and the infinity spellings are read as \<^verbatim>\<open>strtod\<close> reads them.
\<close>

lemma strtod_erange_1e999: "strtod_erange (10 ^ 999)"
proof -
  have "(2::real) ^ 1024 - 2 ^ 970 \<le> 10 ^ 309" by simp
  also have "(10::real) ^ 309 \<le> 10 ^ 999" by (rule power_increasing) simp_all
  finally show ?thesis by (simp only: strtod_erange_def overflow_threshold_def simp_thms)
qed

lemma strtod_decimal_1e999: "strtod_decimal ''1e999'' = Some (10 ^ 999)"
  by (simp add: strtod_decimal_def Let_def isdigit_def digits_value_def digit_value_def
      stod_exponent_def exponent_part_def del: power_numeral)

lemma stod_1e999: "stod ''1e999'' = Thrown out_of_range"
  by (simp add: stod_def Let_def isspace_def hex_prefix_def inf_or_nan_def tolower_def
      strtod_decimal_1e999 strtod_erange_1e999 del: power_numeral)

lemma builtin_val_1e999: "builtin_val rt [Str ''1e999''] = Inr (Float64 0)"
  by (simp add: builtin_val_def stod_1e999)

lemma stod_no_number: "stod ''abc'' = Thrown invalid_argument"
  by (simp add: stod_def Let_def isspace_def isdigit_def hex_prefix_def inf_or_nan_def
      tolower_def strtod_decimal_def)

lemma stod_hexadecimal: "stod ''0x1Ap1'' = Double 52"
  by (simp add: stod_def Let_def isspace_def isdigit_def isxdigit_def xdigits_value_def
      xdigit_value_def strtod_hex_def hex_prefix_def inf_or_nan_def tolower_def
      strtod_erange_def overflow_threshold_def exponent_part_def digits_value_def
      digit_value_def)

lemma stod_infinity: "stod ''-Infinity'' = NonFiniteDouble"
  by code_simp

text \<open>Where \<^verbatim>\<open>std::pow\<close> gives an infinity or a NaN, the model has no value.\<close>

lemma pow_not_finite:
  "pow 0 (- 1) = None" "pow (- 8) (1 / 3) = None" "pow 10 400 = None"
  by (simp_all add: pow_def overflow_threshold_def)

lemma pow_finite: "pow (- 2) 3 = Some (- 8)" "pow 0 0 = Some 1" "pow 0 2 = Some 0"
  by (simp_all add: pow_def overflow_threshold_def)

section \<open>Integer division and MOD by a fraction\<close>

text \<open>
  Claim C6 says that no divisor leads to an unguarded machine division by zero. The guard
  of \<^verbatim>\<open>\\<close> and \<^verbatim>\<open>MOD\<close> compares the \<^verbatim>\<open>double\<close> divisor with 0, and the division is done
  on its truncation: \<^verbatim>\<open>5 \ 0.5\<close> and \<^verbatim>\<open>5 MOD 0.5\<close> pass the guard and divide the
  integer 5 by the integer 0.
\<close>

theorem C6_fraction_divisor_divides_by_zero:
  "eval rt (BinaryExpr BACKSLASH (NumberExpr 5) (NumberExpr (1 / 2)))
     = Inl (UndefinedBehaviour IntDivByZero, rt)
   \<and> eval rt (BinaryExpr MOD (NumberExpr 5) (NumberExpr (1 / 2)))
     = Inl (UndefinedBehaviour IntDivByZero, rt)"
  by (simp add: static_cast_int_def trunc_def int_divide_def int_modulo_def)


section \<open>The scalar store is typed\<close>



lemma resolve_type_variables_update [simp]:
  "resolve_type (rt\<lparr>variables := m\<rparr>) name = resolve_type rt name"
  by (simp add: resolve_type_def)











section \<open>The expression grammar\<close>

text \<open>The equations of the parsing functions, as the source writes them.\<close>

lemmas parser_defs = parse_expression_def parse_imp_expr_def parse_eqv_expr_def parse_xor_expr_def parse_or_expr_def parse_and_expr_def parse_comparison_def parse_additive_def parse_mod_expr_def parse_int_div_expr_def parse_multiplicative_def parse_not_expr_def parse_unary_def parse_power_def parse_primary_def imp_loop_def eqv_loop_def xor_loop_def or_loop_def and_loop_def comparison_loop_def additive_loop_def mod_loop_def int_div_loop_def multiplicative_loop_def parse_expression_list_def call_arguments_def

lemma parse_expression_Suc:
  "parse_expression (Suc n) p =
     parse_imp_expr n p"
  unfolding parser_defs by simp

lemma parse_imp_expr_Suc:
  "parse_imp_expr (Suc n) p =
     (case parse_eqv_expr n p of
        None \<Rightarrow> None
      | Some (Inl x) \<Rightarrow> Some (Inl x)
      | Some (Inr (left, p1)) \<Rightarrow> imp_loop n left p1)"
  unfolding parser_defs by simp

lemma parse_eqv_expr_Suc:
  "parse_eqv_expr (Suc n) p =
     (case parse_xor_expr n p of
        None \<Rightarrow> None
      | Some (Inl x) \<Rightarrow> Some (Inl x)
      | Some (Inr (left, p1)) \<Rightarrow> eqv_loop n left p1)"
  unfolding parser_defs by simp

lemma parse_xor_expr_Suc:
  "parse_xor_expr (Suc n) p =
     (case parse_or_expr n p of
        None \<Rightarrow> None
      | Some (Inl x) \<Rightarrow> Some (Inl x)
      | Some (Inr (left, p1)) \<Rightarrow> xor_loop n left p1)"
  unfolding parser_defs by simp

lemma parse_or_expr_Suc:
  "parse_or_expr (Suc n) p =
     (case parse_and_expr n p of
        None \<Rightarrow> None
      | Some (Inl x) \<Rightarrow> Some (Inl x)
      | Some (Inr (left, p1)) \<Rightarrow> or_loop n left p1)"
  unfolding parser_defs by simp

lemma parse_and_expr_Suc:
  "parse_and_expr (Suc n) p =
     (case parse_not_expr n p of
        None \<Rightarrow> None
      | Some (Inl x) \<Rightarrow> Some (Inl x)
      | Some (Inr (left, p1)) \<Rightarrow> and_loop n left p1)"
  unfolding parser_defs by simp

lemma parse_comparison_Suc:
  "parse_comparison (Suc n) p =
     (case parse_additive n p of
        None \<Rightarrow> None
      | Some (Inl x) \<Rightarrow> Some (Inl x)
      | Some (Inr (left, p1)) \<Rightarrow> comparison_loop n left p1)"
  unfolding parser_defs by simp

lemma parse_additive_Suc:
  "parse_additive (Suc n) p =
     (case parse_mod_expr n p of
        None \<Rightarrow> None
      | Some (Inl x) \<Rightarrow> Some (Inl x)
      | Some (Inr (left, p1)) \<Rightarrow> additive_loop n left p1)"
  unfolding parser_defs by simp

lemma parse_mod_expr_Suc:
  "parse_mod_expr (Suc n) p =
     (case parse_int_div_expr n p of
        None \<Rightarrow> None
      | Some (Inl x) \<Rightarrow> Some (Inl x)
      | Some (Inr (left, p1)) \<Rightarrow> mod_loop n left p1)"
  unfolding parser_defs by simp

lemma parse_int_div_expr_Suc:
  "parse_int_div_expr (Suc n) p =
     (case parse_multiplicative n p of
        None \<Rightarrow> None
      | Some (Inl x) \<Rightarrow> Some (Inl x)
      | Some (Inr (left, p1)) \<Rightarrow> int_div_loop n left p1)"
  unfolding parser_defs by simp

lemma parse_multiplicative_Suc:
  "parse_multiplicative (Suc n) p =
     (case parse_unary n p of
        None \<Rightarrow> None
      | Some (Inl x) \<Rightarrow> Some (Inl x)
      | Some (Inr (left, p1)) \<Rightarrow> multiplicative_loop n left p1)"
  unfolding parser_defs by simp

lemma parse_not_expr_Suc:
  "parse_not_expr (Suc n) p =
     (if check p NOT then
        (case parse_not_expr n (advance p) of
           None \<Rightarrow> None
         | Some (Inl x) \<Rightarrow> Some (Inl x)
         | Some (Inr (operand, p1)) \<Rightarrow> Some (Inr (UnaryExpr NOT operand, p1)))
      else parse_comparison n p)"
  unfolding parser_defs by simp

lemma parse_unary_Suc:
  "parse_unary (Suc n) p =
     (if check p MINUS \<or> check p PLUS then
        (case parse_unary n (advance p) of
           None \<Rightarrow> None
         | Some (Inl x) \<Rightarrow> Some (Inl x)
         | Some (Inr (operand, p1)) \<Rightarrow>
             if fst (current p) = MINUS then Some (Inr (UnaryExpr MINUS operand, p1))
             else Some (Inr (operand, p1)))
      else parse_power n p)"
  unfolding parser_defs by simp

lemma parse_power_Suc:
  "parse_power (Suc n) p =
     (case parse_primary n p of
        None \<Rightarrow> None
      | Some (Inl x) \<Rightarrow> Some (Inl x)
      | Some (Inr (left, p1)) \<Rightarrow>
          if check p1 POWER then
            (case parse_power n (advance p1) of
               None \<Rightarrow> None
             | Some (Inl x) \<Rightarrow> Some (Inl x)
             | Some (Inr (right, p2)) \<Rightarrow> Some (Inr (BinaryExpr POWER left right, p2)))
          else Some (Inr (left, p1)))"
  unfolding parser_defs by simp

lemma parse_primary_Suc:
  "parse_primary (Suc n) p =
     (if check p NUMBER then
        (case stod (snd (current p)) of
           Thrown x \<Rightarrow> Some (Inl (StdException x))
         | NonFiniteDouble \<Rightarrow> Some (Inl NonFiniteLiteral)
         | Double v \<Rightarrow> Some (Inr (NumberExpr v, advance p)))
      else if check p STRING_TOKEN then Some (Inr (StringExpr (snd (current p)), advance p))
      else if check p LPAREN then
        (case parse_expression n (advance p) of
           None \<Rightarrow> None
         | Some (Inl x) \<Rightarrow> Some (Inl x)
         | Some (Inr (e, p1)) \<Rightarrow>
             (case expect p1 RPAREN ''Expected ')' after expression'' of
                Inl x \<Rightarrow> Some (Inl x)
              | Inr p2 \<Rightarrow> Some (Inr (e, p2))))
      else if check p ERR then Some (Inr (VariableExpr ''err%'' INTEGER, advance p))
      else if check p ERL then Some (Inr (VariableExpr ''erl%'' INTEGER, advance p))
      else if check p FN then
        (let p1 = advance p
         in if \<not> check p1 IDENTIFIER
            then Some (Inl (ParseError ''Expected function name after FN''))
            else let name = ''fn'' @ snd (current p1); p2 = advance p1
                 in if check p2 LPAREN then
                      (case call_arguments n ''Expected ')' after function arguments'' (advance p2) of
                         None \<Rightarrow> None
                       | Some (Inl x) \<Rightarrow> Some (Inl x)
                       | Some (Inr (args, p3)) \<Rightarrow> Some (Inr (FunctionCallExpr name args, p3)))
                    else Some (Inr (FunctionCallExpr name [], p2)))
      else if is_builtin (fst (current p)) then
        (let name = snd (current p); p1 = advance p
         in if check p1 LPAREN then
              (case call_arguments n ''Expected ')' after function arguments'' (advance p1) of
                 None \<Rightarrow> None
               | Some (Inl x) \<Rightarrow> Some (Inl x)
               | Some (Inr (args, p2)) \<Rightarrow> Some (Inr (FunctionCallExpr name args, p2)))
            else Some (Inr (FunctionCallExpr name [], p1)))
      else if check p IDENTIFIER then
        (let name = snd (current p); t = Parser_resolve_type p name; p1 = advance p
         in if 2 < length name \<and> take 2 name = ''fn'' \<and> check p1 LPAREN then
              (case call_arguments n ''Expected ')' after function arguments'' (advance p1) of
                 None \<Rightarrow> None
               | Some (Inl x) \<Rightarrow> Some (Inl x)
               | Some (Inr (args, p2)) \<Rightarrow> Some (Inr (FunctionCallExpr name args, p2)))
            else if check p1 LPAREN then
              (case call_arguments n ''Expected ')' after subscripts'' (advance p1) of
                 None \<Rightarrow> None
               | Some (Inl x) \<Rightarrow> Some (Inl x)
               | Some (Inr (indices, p2)) \<Rightarrow> Some (Inr (ArrayAccessExpr name indices t, p2)))
            else Some (Inr (VariableExpr name t, p1)))
      else Some (Inl (ParseError ''Missing operand'')))"
  unfolding parser_defs by simp

lemma imp_loop_Suc:
  "imp_loop (Suc n) left p =
     (if check p IMP then
        (case parse_eqv_expr n (advance p) of
           None \<Rightarrow> None
         | Some (Inl x) \<Rightarrow> Some (Inl x)
         | Some (Inr (right, p1)) \<Rightarrow>
             imp_loop n (BinaryExpr IMP left right) p1)
      else Some (Inr (left, p)))"
  unfolding parser_defs by simp

lemma eqv_loop_Suc:
  "eqv_loop (Suc n) left p =
     (if check p EQV then
        (case parse_xor_expr n (advance p) of
           None \<Rightarrow> None
         | Some (Inl x) \<Rightarrow> Some (Inl x)
         | Some (Inr (right, p1)) \<Rightarrow>
             eqv_loop n (BinaryExpr EQV left right) p1)
      else Some (Inr (left, p)))"
  unfolding parser_defs by simp

lemma xor_loop_Suc:
  "xor_loop (Suc n) left p =
     (if check p XOR then
        (case parse_or_expr n (advance p) of
           None \<Rightarrow> None
         | Some (Inl x) \<Rightarrow> Some (Inl x)
         | Some (Inr (right, p1)) \<Rightarrow>
             xor_loop n (BinaryExpr XOR left right) p1)
      else Some (Inr (left, p)))"
  unfolding parser_defs by simp

lemma or_loop_Suc:
  "or_loop (Suc n) left p =
     (if check p OR then
        (case parse_and_expr n (advance p) of
           None \<Rightarrow> None
         | Some (Inl x) \<Rightarrow> Some (Inl x)
         | Some (Inr (right, p1)) \<Rightarrow>
             or_loop n (BinaryExpr OR left right) p1)
      else Some (Inr (left, p)))"
  unfolding parser_defs by simp

lemma and_loop_Suc:
  "and_loop (Suc n) left p =
     (if check p AND then
        (case parse_not_expr n (advance p) of
           None \<Rightarrow> None
         | Some (Inl x) \<Rightarrow> Some (Inl x)
         | Some (Inr (right, p1)) \<Rightarrow>
             and_loop n (BinaryExpr AND left right) p1)
      else Some (Inr (left, p)))"
  unfolding parser_defs by simp

lemma comparison_loop_Suc:
  "comparison_loop (Suc n) left p =
     (if check p EQUAL \<or> check p NOT_EQUAL \<or> check p LESS_THAN \<or> check p GREATER_THAN \<or> check p LESS_EQUAL \<or> check p GREATER_EQUAL then
        (case parse_additive n (advance p) of
           None \<Rightarrow> None
         | Some (Inl x) \<Rightarrow> Some (Inl x)
         | Some (Inr (right, p1)) \<Rightarrow>
             comparison_loop n (BinaryExpr (fst (current p)) left right) p1)
      else Some (Inr (left, p)))"
  unfolding parser_defs by simp

lemma additive_loop_Suc:
  "additive_loop (Suc n) left p =
     (if check p PLUS \<or> check p MINUS then
        (case parse_mod_expr n (advance p) of
           None \<Rightarrow> None
         | Some (Inl x) \<Rightarrow> Some (Inl x)
         | Some (Inr (right, p1)) \<Rightarrow>
             additive_loop n (BinaryExpr (fst (current p)) left right) p1)
      else Some (Inr (left, p)))"
  unfolding parser_defs by simp

lemma mod_loop_Suc:
  "mod_loop (Suc n) left p =
     (if check p MOD then
        (case parse_int_div_expr n (advance p) of
           None \<Rightarrow> None
         | Some (Inl x) \<Rightarrow> Some (Inl x)
         | Some (Inr (right, p1)) \<Rightarrow>
             mod_loop n (BinaryExpr MOD left right) p1)
      else Some (Inr (left, p)))"
  unfolding parser_defs by simp

lemma int_div_loop_Suc:
  "int_div_loop (Suc n) left p =
     (if check p BACKSLASH then
        (case parse_multiplicative n (advance p) of
           None \<Rightarrow> None
         | Some (Inl x) \<Rightarrow> Some (Inl x)
         | Some (Inr (right, p1)) \<Rightarrow>
             int_div_loop n (BinaryExpr BACKSLASH left right) p1)
      else Some (Inr (left, p)))"
  unfolding parser_defs by simp

lemma multiplicative_loop_Suc:
  "multiplicative_loop (Suc n) left p =
     (if check p MULTIPLY \<or> check p DIVIDE then
        (case parse_unary n (advance p) of
           None \<Rightarrow> None
         | Some (Inl x) \<Rightarrow> Some (Inl x)
         | Some (Inr (right, p1)) \<Rightarrow>
             multiplicative_loop n (BinaryExpr (fst (current p)) left right) p1)
      else Some (Inr (left, p)))"
  unfolding parser_defs by simp

lemma parse_expression_list_Suc:
  "parse_expression_list (Suc n) p =
     (case parse_expression n p of
        None \<Rightarrow> None
      | Some (Inl x) \<Rightarrow> Some (Inl x)
      | Some (Inr (e, p1)) \<Rightarrow>
          if check p1 COMMA then
            (case parse_expression_list n (advance p1) of
               None \<Rightarrow> None
             | Some (Inl x) \<Rightarrow> Some (Inl x)
             | Some (Inr (es, p2)) \<Rightarrow> Some (Inr (e # es, p2)))
          else Some (Inr ([e], p1)))"
  unfolding parser_defs by simp

lemma call_arguments_Suc:
  "call_arguments (Suc n) msg p =
     (if check p RPAREN then Some (Inr ([], advance p))
      else case parse_expression_list n p of
             None \<Rightarrow> None
           | Some (Inl x) \<Rightarrow> Some (Inl x)
           | Some (Inr (args, p1)) \<Rightarrow>
               (case expect p1 RPAREN msg of
                  Inl x \<Rightarrow> Some (Inl x)
                | Inr p2 \<Rightarrow> Some (Inr (args, p2))))"
  unfolding parser_defs by simp

text \<open>A numeral that \<^verbatim>\<open>std::stod\<close> rejects ends the parse with that exception.\<close>

lemma parse_primary_stod_throws:
  "check p NUMBER \<Longrightarrow> stod (snd (current p)) = Thrown x
     \<Longrightarrow> parse_primary (Suc n) p = Some (Inl (StdException x))"
  by (simp add: parse_primary_Suc)





section \<open>CLEAR restarts the program\<close>









section \<open>RESUME with no error outstanding\<close>

text \<open>
  Claim C10. When no error is captured, \<^verbatim>\<open>RESUME\<close> raises error 20 (\<^verbatim>\<open>RESUME without
  error\<close>), and the runtime it leaves differs from the one before in the error bookkeeping
  of \<^verbatim>\<open>raise_error\<close> and in \<^verbatim>\<open>ERR%\<close>, which is the integer 0 whatever it held.
\<close>

theorem C10_failed_resume_clears_err:
  assumes "error_pc rt = None"
  shows "exec_resume rt resume_type target_line
           = Inl (RuntimeError 20,
                  rt\<lparr>variables := (variables rt)(''err%'' \<mapsto> Int16 0),
                     last_error_code := 20, last_error_line := line (pc rt)\<rparr>)"
  using assms
  by (simp add: exec_resume_def Let_def set_variable_def raise_error_def RESUME_WITHOUT_ERROR_def
      resolve_type_def to_integer_def rint_def)

theorem C10_failed_resume_clears_err_witness:
  "error_pc C10_runtime = None
   \<and> get_variable C10_runtime ''err%'' = Int16 11
   \<and> exec_resume C10_runtime RESUME_IMPLICIT None
        = Inl (RuntimeError 20,
               C10_runtime\<lparr>variables := (variables C10_runtime)(''err%'' \<mapsto> Int16 0),
                  last_error_code := 20, last_error_line := 0\<rparr>)"
proof -
  have e: "error_pc C10_runtime = None"
    by (simp add: C10_runtime_def set_variable_def Runtime_init_def)
  have v: "get_variable C10_runtime ''err%'' = Int16 11"
    by (simp add: C10_runtime_def get_variable_def set_variable_def resolve_type_def
        to_integer_def rint_def)
  have l: "line (pc C10_runtime) = 0"
    by (simp add: C10_runtime_def set_variable_def Runtime_init_def)
  show ?thesis
    using C10_failed_resume_clears_err [OF e, of RESUME_IMPLICIT None] e v
    by (simp add: l)
qed


section \<open>Printing a number and reading it back\<close>

subsection \<open>Digit strings\<close>

lemma isdigit_digit_char: "d < 10 \<Longrightarrow> isdigit (digit_char d)"
  by (simp add: isdigit_def digit_char_def)

lemma digit_value_digit_char: "d < 10 \<Longrightarrow> digit_value (digit_char d) = d"
  by (simp add: digit_value_def digit_char_def)

lemma digits_of_digits: "c \<in> set (digits_of n) \<Longrightarrow> isdigit c"
proof (induction n arbitrary: c rule: digits_of.induct)
  case (1 n)
  show ?case
  proof (cases "n < 10")
    case True
    with "1.prems" show ?thesis
      by (simp add: digits_of.simps [of n] isdigit_digit_char)
  next
    case False
    with "1.prems" "1.IH" show ?thesis
      by (auto simp: digits_of.simps [of n] isdigit_digit_char)
  qed
qed

lemma digits_of_nonempty: "digits_of n \<noteq> []"
  by (subst digits_of.simps) simp

lemma digits_value_snoc: "digits_value (ds @ [c]) = 10 * digits_value ds + digit_value c"
  by (simp add: digits_value_def)

lemma digits_value_digits_of: "digits_value (digits_of n) = n"
proof (induction n rule: digits_of.induct)
  case (1 n)
  show ?case
  proof (cases "n < 10")
    case True
    then show ?thesis
      by (simp add: digits_of.simps [of n] digits_value_def digit_value_digit_char)
  next
    case False
    with "1.IH" show ?thesis
      by (simp add: digits_of.simps [of n] digits_value_snoc digit_value_digit_char)
  qed
qed

lemma digits_value_append:
  "digits_value (xs @ ys) = digits_value xs * 10 ^ length ys + digits_value ys"
proof (induction ys rule: rev_induct)
  case Nil
  then show ?case by (simp add: digits_value_def)
next
  case (snoc c ys)
  have "digits_value (xs @ ys @ [c]) = 10 * digits_value (xs @ ys) + digit_value c"
    using digits_value_snoc [of "xs @ ys" c] by simp
  then show ?case
    by (simp add: snoc.IH digits_value_snoc algebra_simps)
qed

lemma length_digits_of: "n < 10 ^ k \<Longrightarrow> 0 < k \<Longrightarrow> length (digits_of n) \<le> k"
proof (induction n arbitrary: k rule: digits_of.induct)
  case (1 n)
  show ?case
  proof (cases "n < 10")
    case True
    with "1.prems" show ?thesis by (simp add: digits_of.simps [of n])
  next
    case False
    then obtain j where j: "k = Suc j" using "1.prems" by (cases k) auto
    have "0 < j" using False "1.prems" j by (cases j) auto
    moreover have "n div 10 < 10 ^ j" using "1.prems" j
      by (simp add: less_mult_imp_div_less mult.commute)
    ultimately have "length (digits_of (n div 10)) \<le> j" using "1.IH" False by simp
    then show ?thesis using False j by (simp add: digits_of.simps [of n])
  qed
qed

subsection \<open>Rounding and reading\<close>

lemma rint_bound: "\<bar>real_of_int (rint x) - x\<bar> \<le> 1 / 2"
proof -
  have "real_of_int \<lfloor>x\<rfloor> \<le> x" "x < real_of_int \<lfloor>x\<rfloor> + 1" by linarith+
  then show ?thesis
    by (auto simp: rint_def Let_def)
qed

lemma rint_nonneg: "0 \<le> x \<Longrightarrow> 0 \<le> rint x"
  by (auto simp: rint_def Let_def)

lemma trunc_abs: "\<bar>real_of_int (trunc v)\<bar> \<le> \<bar>v\<bar>"
  by (auto simp: trunc_def)

lemma isdigit_not_space: "isdigit c \<Longrightarrow> \<not> isspace c"
  by (auto simp: isdigit_def isspace_def)

lemma isdigit_special [simp]:
  "\<not> isdigit CHR ''.''" "\<not> isdigit CHR '' ''" "\<not> isdigit CHR ''-''" "isdigit CHR ''0''"
  "isspace CHR '' ''" "\<not> isspace CHR ''-''"
  by (simp_all add: isdigit_def isspace_def)

lemma isdigit_not_sign: "isdigit c \<Longrightarrow> c \<noteq> CHR ''-'' \<and> c \<noteq> CHR ''+'' \<and> c \<noteq> CHR ''.''"
  by (auto simp: isdigit_def)

lemma stod_exponent_space [simp]: "stod_exponent '' '' = 0"
  by (simp add: stod_exponent_def exponent_part_def)

lemma dropWhile_hd: "xs \<noteq> [] \<Longrightarrow> \<not> P (hd xs) \<Longrightarrow> dropWhile P (xs @ ys) = xs @ ys"
  by (cases xs) simp_all

lemma strtod_decimal_digits:
  assumes I: "\<forall>c\<in>set I. isdigit c" and ne: "I \<noteq> []" and F: "\<forall>c\<in>set F. isdigit c"
  shows "strtod_decimal (I @ (if F = [] then [] else CHR ''.'' # F) @ '' '')
           = Some (real (digits_value (I @ F)) / 10 ^ length F)"
proof (cases "F = []")
  case True
  show ?thesis
    using I ne
    by (simp add: strtod_decimal_def Let_def True takeWhile_append2 dropWhile_append2)
next
  case False
  show ?thesis
    using I F ne
    by (simp add: strtod_decimal_def Let_def False takeWhile_append2 dropWhile_append2)
qed

lemma digits_not_hex:
  assumes I: "\<forall>c\<in>set I. isdigit c" and ne: "I \<noteq> []"
    and c: "c = CHR ''.'' \<or> c = CHR '' ''"
  shows "\<not> hex_prefix (I @ c # t)"
proof -
  obtain a J where J: "I = a # J" using ne by (cases I) auto
  show ?thesis
  proof (cases J)
    case Nil
    then show ?thesis using J c by (auto simp: hex_prefix_def)
  next
    case (Cons b K)
    then have "isdigit b" using I J by simp
    then have "b \<noteq> CHR ''x'' \<and> b \<noteq> CHR ''X''" by (auto simp: isdigit_def)
    then show ?thesis using J Cons by (simp add: hex_prefix_def)
  qed
qed

lemma digits_not_inf_or_nan:
  assumes "isdigit (hd I)" and "I \<noteq> []"
  shows "\<not> inf_or_nan (I @ t)"
proof -
  obtain a J where J: "I = a # J" using assms(2) by (cases I) auto
  have "tolower a = a" using assms(1) J by (simp add: isdigit_def tolower_def)
  moreover have "a \<noteq> CHR ''i'' \<and> a \<noteq> CHR ''n''" using assms(1) J by (auto simp: isdigit_def)
  ultimately show ?thesis using J by (auto simp: inf_or_nan_def Let_def)
qed

text \<open>Magnitudes from a millionth to \<open>10 ^ 22\<close>, and 0, are inside the range of \<^verbatim>\<open>strtod\<close>.\<close>

lemma strtod_erange_moderate:
  assumes "m = 0 \<or> 1 / 10 ^ 6 \<le> m" and "m \<le> 10 ^ 22"
  shows "\<not> strtod_erange m"
proof -
  have hi: "(10::real) ^ 22 < 2 ^ 1024 - 2 ^ 970" by simp
  have lo: "1 / 2 ^ 1022 - 1 / 2 ^ 1076 \<le> (1::real) / 10 ^ 6" by simp
  have "\<not> overflow_threshold \<le> m"
    using assms(2) hi unfolding overflow_threshold_def by linarith
  moreover have "\<not> (0 < m \<and> m < 1 / 2 ^ 1022 - 1 / 2 ^ 1076)"
    using assms(1) lo by linarith
  ultimately show ?thesis
    unfolding strtod_erange_def by blast
qed

lemma strtod_erange_millionths:
  assumes "real N \<le> 10 ^ 22"
  shows "\<not> strtod_erange (real N / 10 ^ 6)"
proof (rule strtod_erange_moderate)
  show "real N / 10 ^ 6 = 0 \<or> 1 / 10 ^ 6 \<le> real N / 10 ^ 6"
    by (cases N) (simp_all add: field_simps)
  have "real N / 10 ^ 6 \<le> real N" by (simp add: field_simps)
  then show "real N / 10 ^ 6 \<le> 10 ^ 22" using assms by linarith
qed

lemma stod_unsigned:
  assumes I: "\<forall>c\<in>set I. isdigit c" and ne: "I \<noteq> []" and F: "\<forall>c\<in>set F. isdigit c"
    and r: "\<not> strtod_erange (real (digits_value (I @ F)) / 10 ^ length F)"
  shows "stod (I @ (if F = [] then [] else CHR ''.'' # F) @ '' '')
           = Double (real (digits_value (I @ F)) / 10 ^ length F)"
proof -
  define t where "t = (if F = [] then [] else CHR ''.'' # F) @ '' ''"
  have hdI: "isdigit (hd I)" using I ne by simp
  have sp: "\<not> isspace (hd I)" using hdI by (rule isdigit_not_space)
  have sg: "hd I \<noteq> CHR ''-''" "hd I \<noteq> CHR ''+''"
    using isdigit_not_sign [OF hdI] by simp_all
  have d: "dropWhile isspace (I @ t) = I @ t" using ne sp by (rule dropWhile_hd)
  have h: "hd (I @ t) = hd I" using ne by simp
  have x: "\<not> hex_prefix (I @ t)"
    unfolding t_def using digits_not_hex [OF I ne] by (cases "F = []") simp_all
  have y: "\<not> inf_or_nan (I @ t)" using hdI ne by (rule digits_not_inf_or_nan)
  have v: "strtod_decimal (I @ t) = Some (real (digits_value (I @ F)) / 10 ^ length F)"
    unfolding t_def by (rule strtod_decimal_digits [OF I ne F])
  have "stod (I @ t) = Double (real (digits_value (I @ F)) / 10 ^ length F)"
    unfolding stod_def Let_def d h using ne sg x y v r by simp
  then show ?thesis unfolding t_def .
qed

lemma stod_negative:
  assumes I: "\<forall>c\<in>set I. isdigit c" and ne: "I \<noteq> []" and F: "\<forall>c\<in>set F. isdigit c"
    and r: "\<not> strtod_erange (real (digits_value (I @ F)) / 10 ^ length F)"
  shows "stod (CHR ''-'' # I @ (if F = [] then [] else CHR ''.'' # F) @ '' '')
           = Double (- (real (digits_value (I @ F)) / 10 ^ length F))"
proof -
  define t where "t = (if F = [] then [] else CHR ''.'' # F) @ '' ''"
  have hdI: "isdigit (hd I)" using I ne by simp
  have x: "\<not> hex_prefix (I @ t)"
    unfolding t_def using digits_not_hex [OF I ne] by (cases "F = []") simp_all
  have y: "\<not> inf_or_nan (I @ t)" using hdI ne by (rule digits_not_inf_or_nan)
  have v: "strtod_decimal (I @ t) = Some (real (digits_value (I @ F)) / 10 ^ length F)"
    unfolding t_def by (rule strtod_decimal_digits [OF I ne F])
  have "stod (CHR ''-'' # I @ t) = Double (- (real (digits_value (I @ F)) / 10 ^ length F))"
    unfolding stod_def Let_def using x y v r by simp
  then show ?thesis unfolding t_def .
qed

lemma stod_positive:
  assumes I: "\<forall>c\<in>set I. isdigit c" and ne: "I \<noteq> []" and F: "\<forall>c\<in>set F. isdigit c"
    and r: "\<not> strtod_erange (real (digits_value (I @ F)) / 10 ^ length F)"
  shows "stod (CHR '' '' # I @ (if F = [] then [] else CHR ''.'' # F) @ '' '')
           = Double (real (digits_value (I @ F)) / 10 ^ length F)"
proof -
  have "stod (CHR '' '' # I @ (if F = [] then [] else CHR ''.'' # F) @ '' '')
      = stod (I @ (if F = [] then [] else CHR ''.'' # F) @ '' '')"
    by (simp add: stod_def)
  then show ?thesis using stod_unsigned [OF assms] by simp
qed

subsection \<open>Trimming\<close>

lemma digit_value_zero [simp]: "digit_value CHR ''0'' = 0"
  by (simp add: digit_value_def)

lemma strip0_snoc: "strip0 (G @ [c]) = (if c = CHR ''0'' then strip0 G else G @ [c])"
  by (simp add: strip0_def)

lemma strip0_subset: "set (strip0 F) \<subseteq> set F"
  unfolding strip0_def using set_dropWhileD by fastforce

lemma strip0_value:
  "real (digits_value (strip0 F)) / 10 ^ length (strip0 F) = real (digits_value F) / 10 ^ length F"
proof (induction F rule: rev_induct)
  case Nil
  then show ?case by (simp add: strip0_def)
next
  case (snoc c G)
  then show ?case
    by (simp add: strip0_snoc digits_value_snoc)
qed

lemma dropWhile_stop: "\<not> P c \<Longrightarrow> dropWhile P (xs @ c # ys) = dropWhile P xs @ c # ys"
  by (induction xs) auto

lemma trim_zeros_fraction:
  assumes "\<forall>c\<in>set F. isdigit c"
  shows "trim_zeros (X @ CHR ''.'' # F)
           = X @ (if strip0 F = [] then [] else CHR ''.'' # strip0 F)"
proof -
  have d: "rev (dropWhile (\<lambda>c. c = CHR ''0'') (rev (X @ CHR ''.'' # F))) = X @ CHR ''.'' # strip0 F"
    by (simp add: dropWhile_stop strip0_def)
  show ?thesis
  proof (cases "strip0 F = []")
    case True
    then show ?thesis unfolding trim_zeros_def Let_def d by simp
  next
    case False
    have "last (strip0 F) \<in> set F" using False strip0_subset last_in_set by blast
    then have "isdigit (last (strip0 F))" using assms by simp
    then have "last (strip0 F) \<noteq> CHR ''.''" by auto
    then show ?thesis using False unfolding trim_zeros_def Let_def d by simp
  qed
qed

lemma digits_value_replicate0 [simp]: "digits_value (replicate k CHR ''0'' @ ds) = digits_value ds"
  by (induction k) (simp_all add: digits_value_def)

lemma pad6_props:
  assumes "m < 10 ^ 6"
  shows "length (pad6 (digits_of m)) = 6" "digits_value (pad6 (digits_of m)) = m"
    "\<forall>c\<in>set (pad6 (digits_of m)). isdigit c"
proof -
  have "length (digits_of m) \<le> 6" using assms by (intro length_digits_of) simp_all
  then show "length (pad6 (digits_of m)) = 6" by (simp add: pad6_def)
  show "digits_value (pad6 (digits_of m)) = m" by (simp add: pad6_def digits_value_digits_of)
  show "\<forall>c\<in>set (pad6 (digits_of m)). isdigit c"
    by (auto simp: pad6_def digits_of_digits)
qed

text \<open>The value read back from the trimmed fixed-point text of \<open>N\<close> millionths.\<close>

lemma fixed_value:
  fixes N :: nat
  defines "I \<equiv> digits_of (N div 10 ^ 6)" and "F \<equiv> strip0 (pad6 (digits_of (N mod 10 ^ 6)))"
  shows "real (digits_value (I @ F)) / 10 ^ length F = real N / 10 ^ 6"
    and "\<forall>c\<in>set I. isdigit c" and "I \<noteq> []" and "\<forall>c\<in>set F. isdigit c"
proof -
  have m: "N mod 10 ^ 6 < (10::nat) ^ 6" by simp
  have "real (digits_value (I @ F)) / 10 ^ length F
      = real (digits_value I) + real (digits_value F) / 10 ^ length F"
    by (simp add: digits_value_append field_simps)
  also have "real (digits_value F) / 10 ^ length F = real (N mod 10 ^ 6) / 10 ^ 6"
    unfolding F_def strip0_value using pad6_props [OF m] by simp
  also have "real (digits_value I) = real (N div 10 ^ 6)"
    by (simp add: I_def digits_value_digits_of)
  also have "real (N div 10 ^ 6) + real (N mod 10 ^ 6) / 10 ^ 6 = real N / 10 ^ 6"
  proof -
    have "N = (N div 10 ^ 6) * 10 ^ 6 + N mod 10 ^ 6" by simp
    then have "real N = real (N div 10 ^ 6) * 10 ^ 6 + real (N mod 10 ^ 6)"
      by (metis of_nat_add of_nat_mult of_nat_numeral of_nat_power)
    then show ?thesis by (simp add: field_simps)
  qed
  finally show "real (digits_value (I @ F)) / 10 ^ length F = real N / 10 ^ 6" .
  show "\<forall>c\<in>set I. isdigit c" by (simp add: I_def digits_of_digits)
  show "I \<noteq> []" by (simp add: I_def digits_of_nonempty)
  show "\<forall>c\<in>set F. isdigit c"
    using pad6_props(3) [OF m] strip0_subset unfolding F_def by blast
qed

subsection \<open>The round trip\<close>

lemma trunc_range:
  assumes "\<bar>v\<bar> < 10 ^ 15"
  shows "- (2 ^ 63) \<le> trunc v \<and> trunc v < 2 ^ 63"
proof -
  have "\<bar>real_of_int (trunc v)\<bar> < 10 ^ 15" using trunc_abs [of v] assms by linarith
  then have "\<bar>trunc v\<bar> < 10 ^ 15"
    by (metis of_int_abs of_int_less_iff of_int_numeral of_int_power)
  then show ?thesis by (simp add: abs_less_iff)
qed

lemma rint_of_int: "rint (real_of_int k) = k"
  by (simp add: rint_def)

lemma six_decimals_exact:
  assumes "v * 10 ^ 6 = real_of_int k"
  shows "sgn v * real_of_int (rint (\<bar>v\<bar> * 10 ^ 6)) / 10 ^ 6 = v"
proof -
  have "\<bar>v\<bar> * 10 ^ 6 = \<bar>v * 10 ^ 6\<bar>" by (simp add: abs_mult)
  also have "\<dots> = real_of_int \<bar>k\<bar>" unfolding assms by simp
  finally have k: "\<bar>v\<bar> * 10 ^ 6 = real_of_int \<bar>k\<bar>" .
  have "real_of_int (rint (\<bar>v\<bar> * 10 ^ 6)) = \<bar>v\<bar> * 10 ^ 6"
    unfolding k by (simp only: rint_of_int)
  then have "sgn v * real_of_int (rint (\<bar>v\<bar> * 10 ^ 6)) / 10 ^ 6 = sgn v * \<bar>v\<bar>"
    by simp
  then show ?thesis by (simp add: sgn_mult_abs)
qed

lemma float_to_string_integer:
  assumes "\<bar>v\<bar> < 10 ^ 15" and "v = real_of_int (trunc v)" and "\<bar>v\<bar> < 10 ^ 10"
  shows "\<exists>s. float_to_string v = Inr s \<and> stod s = Double v"
proof (cases "0 \<le> v")
  case True
  then have t: "0 \<le> trunc v" by (simp add: trunc_def)
  define n where "n = nat (trunc v)"
  have n: "real n = v" using t assms(2) by (simp add: n_def)
  have r: "\<not> strtod_erange (real (digits_value (digits_of n @ [])) / 10 ^ length ([]::string))"
  proof -
    have "\<not> strtod_erange (real n)"
    proof (rule strtod_erange_moderate)
      show "real n = 0 \<or> 1 / 10 ^ 6 \<le> real n" by (cases n) simp_all
      show "real n \<le> 10 ^ 22" using assms(1) True n by simp
    qed
    then show ?thesis by (simp add: digits_value_digits_of)
  qed
  have s: "float_to_string v = Inr (CHR '' '' # digits_of n @ [] @ '' '')"
    using trunc_range [OF assms(1)] assms(2,3) True t
    by (simp add: float_to_string_def Let_def std_to_string_int_def n_def)
  have "stod (CHR '' '' # digits_of n @ (if ([]::string) = [] then [] else CHR ''.'' # []) @ '' '')
      = Double (real (digits_value (digits_of n @ [])) / 10 ^ length ([]::string))"
    using r by (intro stod_positive) (simp_all add: digits_of_digits digits_of_nonempty)
  then have "stod (CHR '' '' # digits_of n @ [] @ '' '') = Double v"
    using n by (simp add: digits_value_digits_of)
  with s show ?thesis by blast
next
  case False
  then have t: "trunc v < 0" using assms(2) by (metis not_le of_int_nonneg)
  define n where "n = nat (- trunc v)"
  have n: "- real n = v" using t assms(2) by (simp add: n_def)
  have r: "\<not> strtod_erange (real (digits_value (digits_of n @ [])) / 10 ^ length ([]::string))"
  proof -
    have "\<not> strtod_erange (real n)"
    proof (rule strtod_erange_moderate)
      show "real n = 0 \<or> 1 / 10 ^ 6 \<le> real n" by (cases n) simp_all
      show "real n \<le> 10 ^ 22" using assms(1) False n by simp
    qed
    then show ?thesis by (simp add: digits_value_digits_of)
  qed
  have s: "float_to_string v = Inr (CHR ''-'' # digits_of n @ [] @ '' '')"
    using trunc_range [OF assms(1)] assms(2,3) False t
    by (simp add: float_to_string_def Let_def std_to_string_int_def n_def)
  have "stod (CHR ''-'' # digits_of n @ (if ([]::string) = [] then [] else CHR ''.'' # []) @ '' '')
      = Double (- (real (digits_value (digits_of n @ [])) / 10 ^ length ([]::string)))"
    using r by (intro stod_negative) (simp_all add: digits_of_digits digits_of_nonempty)
  then have "stod (CHR ''-'' # digits_of n @ [] @ '' '') = Double v"
    using n by (simp add: digits_value_digits_of)
  with s show ?thesis by blast
qed

lemma float_to_string_fixed:
  assumes "\<bar>v\<bar> < 10 ^ 15" and "\<not> (v = real_of_int (trunc v) \<and> \<bar>v\<bar> < 10 ^ 10)"
  shows "\<exists>s. float_to_string v = Inr s
           \<and> stod s = Double (sgn v * real_of_int (rint (\<bar>v\<bar> * 10 ^ 6)) / 10 ^ 6)"
proof -
  define N where "N = nat (rint (\<bar>v\<bar> * 10 ^ 6))"
  define I where "I = digits_of (N div 10 ^ 6)"
  define F where "F = strip0 (pad6 (digits_of (N mod 10 ^ 6)))"
  have m: "N mod 10 ^ 6 < (10::nat) ^ 6" by simp
  have val: "real (digits_value (I @ F)) / 10 ^ length F = real N / 10 ^ 6"
    and dI: "\<forall>c\<in>set I. isdigit c" and neI: "I \<noteq> []" and dF: "\<forall>c\<in>set F. isdigit c"
    unfolding I_def F_def by (rule fixed_value)+
  have tz: "trim_zeros (std_to_string_double v)
      = (if v < 0 then ''-'' else []) @ I @ (if F = [] then [] else CHR ''.'' # F)"
    using trim_zeros_fraction [OF pad6_props(3) [OF m], of "(if v < 0 then ''-'' else []) @ I"]
    by (simp add: std_to_string_double_def Let_def N_def I_def F_def)
  have c: "(v = real_of_int (trunc v) \<and> \<bar>v\<bar> < 10 ^ 10) = False"
    using assms(2) by simp
  have N: "real N = real_of_int (rint (\<bar>v\<bar> * 10 ^ 6))"
    using rint_nonneg [of "\<bar>v\<bar> * 10 ^ 6"] by (simp add: N_def)
  have "\<bar>real N - \<bar>v\<bar> * 10 ^ 6\<bar> \<le> 1 / 2" unfolding N by (rule rint_bound)
  then have "real N \<le> \<bar>v\<bar> * 10 ^ 6 + 1 / 2" by linarith
  also have "\<dots> \<le> 10 ^ 21 + 1 / 2" using assms(1) by simp
  also have "\<dots> \<le> (10::real) ^ 22" by simp
  finally have "real N \<le> 10 ^ 22" .
  then have "\<not> strtod_erange (real N / 10 ^ 6)" by (rule strtod_erange_millionths)
  then have r: "\<not> strtod_erange (real (digits_value (I @ F)) / 10 ^ length F)"
    unfolding val .
  have nz: "v \<noteq> 0" using assms(2) by (auto simp: trunc_def)
  show ?thesis
  proof (cases "0 \<le> v")
    case True
    have s: "float_to_string v = Inr (CHR '' '' # I @ (if F = [] then [] else CHR ''.'' # F) @ '' '')"
      unfolding float_to_string_def Let_def c
      using trunc_range [OF assms(1)] True by (simp add: tz)
    have "stod (CHR '' '' # I @ (if F = [] then [] else CHR ''.'' # F) @ '' '')
        = Double (real N / 10 ^ 6)"
      using stod_positive [OF dI neI dF r] val by simp
    moreover have "real N / 10 ^ 6 = sgn v * real_of_int (rint (\<bar>v\<bar> * 10 ^ 6)) / 10 ^ 6"
      using True nz by (simp add: N)
    ultimately show ?thesis using s by auto
  next
    case False
    have s: "float_to_string v = Inr (CHR ''-'' # I @ (if F = [] then [] else CHR ''.'' # F) @ '' '')"
      unfolding float_to_string_def Let_def c
      using trunc_range [OF assms(1)] False by (simp add: tz)
    have "stod (CHR ''-'' # I @ (if F = [] then [] else CHR ''.'' # F) @ '' '')
        = Double (- (real N / 10 ^ 6))"
      using stod_negative [OF dI neI dF r] val by simp
    moreover have "- (real N / 10 ^ 6) = sgn v * real_of_int (rint (\<bar>v\<bar> * 10 ^ 6)) / 10 ^ 6"
      using False by (simp add: N)
    ultimately show ?thesis using s by auto
  qed
qed

text \<open>The text of \<^verbatim>\<open>STR$\<close> reads back as the number rounded to six decimals.\<close>

lemma float_to_string_roundtrip:
  assumes "\<bar>v\<bar> < 10 ^ 15"
  shows "\<exists>s. float_to_string v = Inr s
           \<and> stod s = Double (sgn v * real_of_int (rint (\<bar>v\<bar> * 10 ^ 6)) / 10 ^ 6)"
proof (cases "v = real_of_int (trunc v) \<and> \<bar>v\<bar> < 10 ^ 10")
  case True
  then obtain s where s: "float_to_string v = Inr s" "stod s = Double v"
    using float_to_string_integer [OF assms] by blast
  have "v * 10 ^ 6 = real_of_int (trunc v * 10 ^ 6)" using True by simp
  then have "sgn v * real_of_int (rint (\<bar>v\<bar> * 10 ^ 6)) / 10 ^ 6 = v"
    by (rule six_decimals_exact)
  then show ?thesis using s by auto
next
  case False
  then show ?thesis by (rule float_to_string_fixed [OF assms])
qed

lemma six_decimals_error:
  "\<bar>sgn v * real_of_int (rint (\<bar>v\<bar> * 10 ^ 6)) / 10 ^ 6 - v\<bar> \<le> 1 / (2 * 10 ^ 6)"
proof -
  define R where "R = real_of_int (rint (\<bar>v\<bar> * 10 ^ 6))"
  have "\<bar>R - \<bar>v\<bar> * 10 ^ 6\<bar> \<le> 1 / 2" unfolding R_def by (rule rint_bound)
  then have e: "\<bar>R / 10 ^ 6 - \<bar>v\<bar>\<bar> \<le> 1 / (2 * 10 ^ 6)"
    by (simp add: field_simps abs_le_iff)
  consider "0 < v" | "v = 0" | "v < 0" by linarith
  then have "\<bar>sgn v * R / 10 ^ 6 - v\<bar> \<le> 1 / (2 * 10 ^ 6)"
  proof cases
    case 1
    then show ?thesis using e by simp
  next
    case 2
    then show ?thesis by simp
  next
    case 3
    then have "sgn v * R / 10 ^ 6 - v = - (R / 10 ^ 6 - \<bar>v\<bar>)" by simp
    then have "\<bar>sgn v * R / 10 ^ 6 - v\<bar> = \<bar>R / 10 ^ 6 - \<bar>v\<bar>\<bar>" by (simp only: abs_minus)
    then show ?thesis using e by simp
  qed
  then show ?thesis unfolding R_def .
qed

lemma float_equal_close:
  assumes "\<bar>w - v\<bar> \<le> 1 / (2 * 10 ^ 6)" and "1 / 2 \<le> \<bar>v\<bar>"
  shows "float_equal w v"
proof -
  have "1 / (2 * 10 ^ 6) \<le> max \<bar>w\<bar> \<bar>v\<bar> * (1 / 10 ^ 6)" using assms(2) by (simp add: max_def)
  then have "\<bar>w - v\<bar> \<le> max (1 / 10 ^ 9) (max \<bar>w\<bar> \<bar>v\<bar> * (1 / 10 ^ 6))"
    using assms(1) by (simp add: max_def split: if_splits)
  then show ?thesis by (simp add: float_equal_def Let_def)
qed

lemma float_equal_iff:
  "float_equal a b \<longleftrightarrow> \<bar>a - b\<bar> \<le> max (1 / 10 ^ 9) (max \<bar>a\<bar> \<bar>b\<bar> / 10 ^ 6)"
  by (simp add: float_equal_def Let_def max_def)

text \<open>
  Claim C5, amended. For every \<open>v\<close> with \<open>\<bar>v\<bar> < 10 ^ 15\<close>, \<^verbatim>\<open>STR$\<close> returns a text from
  which \<^verbatim>\<open>VAL\<close> reads \<open>v\<close> rounded to six decimals (ties to even), which is within half a
  millionth of \<open>v\<close>. So the value read equals \<open>v\<close> under the float-equality rule exactly
  when that rounding stays within the rule's tolerance: always when \<open>\<bar>v\<bar>\<close> is at least one
  half, and always when \<open>v\<close> has no more than six decimals (every integer, and 0).
\<close>

theorem C5_roundtrip_six_decimals:
  assumes "\<bar>v\<bar> < 10 ^ 15"
  shows "\<exists>s w. builtin_str rt [Float64 v] = Inr (Str s)
            \<and> builtin_val rt [Str s] = Inr (Float64 w)
            \<and> w = sgn v * real_of_int (rint (\<bar>v\<bar> * 10 ^ 6)) / 10 ^ 6
            \<and> \<bar>w - v\<bar> \<le> 1 / (2 * 10 ^ 6)
            \<and> (float_equal w v
                 \<longleftrightarrow> \<bar>w - v\<bar> \<le> max (1 / 10 ^ 9) (max \<bar>w\<bar> \<bar>v\<bar> / 10 ^ 6))
            \<and> (1 / 2 \<le> \<bar>v\<bar> \<or> (\<exists>k::int. v * 10 ^ 6 = real_of_int k) \<longrightarrow> float_equal w v)"
proof -
  define w where "w = sgn v * real_of_int (rint (\<bar>v\<bar> * 10 ^ 6)) / 10 ^ 6"
  obtain s where s: "float_to_string v = Inr s" "stod s = Double w"
    using float_to_string_roundtrip [OF assms] unfolding w_def by blast
  have e: "\<bar>w - v\<bar> \<le> 1 / (2 * 10 ^ 6)"
    unfolding w_def by (rule six_decimals_error)
  have "float_equal w v" if h: "1 / 2 \<le> \<bar>v\<bar> \<or> (\<exists>k::int. v * 10 ^ 6 = real_of_int k)"
  proof (cases "1 / 2 \<le> \<bar>v\<bar>")
    case True
    with e show ?thesis by (rule float_equal_close)
  next
    case False
    then obtain k :: int where "v * 10 ^ 6 = real_of_int k" using h by blast
    then have "w = v" unfolding w_def by (rule six_decimals_exact)
    then show ?thesis by (simp add: float_equal_def)
  qed
  then have f: "1 / 2 \<le> \<bar>v\<bar> \<or> (\<exists>k::int. v * 10 ^ 6 = real_of_int k) \<longrightarrow> float_equal w v"
    by blast
  have p: "builtin_str rt [Float64 v] = Inr (Str s)"
    using s(1) by (simp add: builtin_str_def)
  have q: "builtin_val rt [Str s] = Inr (Float64 w)"
    using s(2) by (simp add: builtin_val_def)
  show ?thesis
    using p q e f w_def float_equal_iff [of w v] by blast
qed

theorem C5_roundtrip_six_decimals_witness:
  "\<bar>2 / 3 :: real\<bar> < 10 ^ 15
   \<and> (1 :: real) / 2 \<le> \<bar>2 / 3\<bar>
   \<and> (\<exists>s w. builtin_str Runtime_init [Float64 (2 / 3)] = Inr (Str s)
          \<and> builtin_val Runtime_init [Str s] = Inr (Float64 w)
          \<and> w = 666667 / 10 ^ 6
          \<and> float_equal w (2 / 3))"
proof -
  have a: "\<bar>2 / 3 :: real\<bar> < 10 ^ 15" by simp
  have b: "(1 :: real) / 2 \<le> \<bar>2 / 3\<bar>" by simp
  have r: "sgn (2 / 3 :: real) * real_of_int (rint (\<bar>2 / 3\<bar> * 10 ^ 6)) / 10 ^ 6 = 666667 / 10 ^ 6"
    by (simp add: rint_def Let_def)
  show ?thesis
    using C5_roundtrip_six_decimals [OF a, of Runtime_init] a b unfolding r by blast
qed

subsection \<open>A small value\<close>

lemma digits_of_0: "digits_of 0 = ''0''"
  by code_simp

lemma pad6_0: "pad6 ''0'' = ''000000''"
  by code_simp

lemma trim_zeros_0: "trim_zeros ''0.000000'' = ''0''"
  by code_simp

lemma C5_rint: "rint (15625 / 262144) = 0"
  by (simp add: rint_def Let_def)

lemma C5_fixed: "std_to_string_double (1 / 16777216) = ''0.000000''"
  by (simp add: std_to_string_double_def Let_def C5_rint digits_of_0 pad6_0)

lemma C5_text: "float_to_string (1 / 16777216) = Inr '' 0 ''"
  by (simp add: float_to_string_def trunc_def Let_def C5_fixed trim_zeros_0)

lemma C5_read: "stod '' 0 '' = Double 0"
  by (simp add: stod_def isspace_def isdigit_def digits_value_def digit_value_def
      strtod_decimal_def hex_prefix_def inf_or_nan_def tolower_def strtod_erange_def
      overflow_threshold_def stod_exponent_def exponent_part_def)

lemma C5_differs: "\<not> float_equal 0 (1 / 16777216)"
  by (simp add: float_equal_def Let_def)

text \<open>
  Claim C5 as stated fails for small magnitudes: \<open>2 powr - 24\<close> (a \<^verbatim>\<open>double\<close>, about
  \<open>6 / 10 ^ 8\<close>) is printed with six decimals as \<^verbatim>\<open>0.000000\<close> and trimmed to \<^verbatim>\<open>0\<close>, the
  value read back is 0, and 0 does not equal it under the float-equality rule.
\<close>

theorem C5_small_value_reads_back_zero:
  "\<bar>1 / 16777216 :: real\<bar> < 10 ^ 15
   \<and> builtin_str Runtime_init [Float64 (1 / 16777216)] = Inr (Str '' 0 '')
   \<and> builtin_val Runtime_init [Str '' 0 ''] = Inr (Float64 0)
   \<and> \<not> float_equal 0 (1 / 16777216)"
  by (simp add: builtin_str_def builtin_val_def C5_text C5_read C5_differs)


end
